theory Spec2Isabelle
  imports Complex_Main "HOL-Library.Sublist"
begin

section \<open>Rows and queries of the hosted store\<close>

text \<open>
  The pages of the repository are client scripts over a hosted relational store. A row
  is modelled as a record with one field per column the scripts read; a nullable column
  is an \<open>option\<close>. A query is the list of filters the script chains onto a table, in the
  order written, and the store returns the rows that satisfy all of them.
\<close>

datatype val = VNull | VStr string | VNum real | VBool bool

record image_row =
  image_url :: "string option"
  is_primary :: "bool option"
  display_order :: "int option"

record business_row =
  business_name :: "string option"
  website_url :: "string option"

record experience =
  experience_id :: string
  title :: "string option"
  short_description :: "string option"
  event_description :: "string option"
  county :: "string option"
  min_price :: "real option"
  max_price :: "real option"
  status :: "string option"
  is_published :: "bool option"
  booking_url :: "string option"
  created_at :: int
  business :: "business_row option"
  image_list :: "image_row list"

text \<open>The value of a column of an \<open>experiences\<close> row, by the column's name.\<close>

definition opt_str :: "string option \<Rightarrow> val" where
  "opt_str s = (case s of None \<Rightarrow> VNull | Some x \<Rightarrow> VStr x)"

definition opt_num :: "real option \<Rightarrow> val" where
  "opt_num s = (case s of None \<Rightarrow> VNull | Some x \<Rightarrow> VNum x)"

definition opt_bool :: "bool option \<Rightarrow> val" where
  "opt_bool s = (case s of None \<Rightarrow> VNull | Some x \<Rightarrow> VBool x)"

definition column :: "experience \<Rightarrow> string \<Rightarrow> val" where
  "column r c =
     (if c = ''experience_id'' then VStr (experience_id r)
      else if c = ''title'' then opt_str (title r)
      else if c = ''short_description'' then opt_str (short_description r)
      else if c = ''event_description'' then opt_str (event_description r)
      else if c = ''county'' then opt_str (county r)
      else if c = ''min_price'' then opt_num (min_price r)
      else if c = ''max_price'' then opt_num (max_price r)
      else if c = ''status'' then opt_str (status r)
      else if c = ''is_published'' then opt_bool (is_published r)
      else if c = ''booking_url'' then opt_str (booking_url r)
      else VNull)"

text \<open>
  The filters the scripts use: \<open>.eq\<close>, \<open>.in\<close>, \<open>.lte\<close>, \<open>.gte\<close> and \<open>.or\<close> with a filter
  string. A row is seen through its column function. A comparison with a null column
  matches nothing, as in SQL. The meaning of an \<open>.or\<close> filter string belongs to the
  store and is a parameter of the model.
\<close>

datatype filter_op =
    Eq string val
  | In string "val list"
  | Lte string real
  | Gte string real
  | Or string

type_synonym or_semantics = "string \<Rightarrow> (string \<Rightarrow> val) \<Rightarrow> bool"

fun sat :: "or_semantics \<Rightarrow> (string \<Rightarrow> val) \<Rightarrow> filter_op \<Rightarrow> bool" where
  "sat orf col (Eq c v) = (col c \<noteq> VNull \<and> col c = v)"
| "sat orf col (In c vs) = (col c \<noteq> VNull \<and> col c \<in> set vs)"
| "sat orf col (Lte c n) = (case col c of VNum x \<Rightarrow> x \<le> n | _ \<Rightarrow> False)"
| "sat orf col (Gte c n) = (case col c of VNum x \<Rightarrow> n \<le> x | _ \<Rightarrow> False)"
| "sat orf col (Or s) = orf s col"

definition matches :: "or_semantics \<Rightarrow> (string \<Rightarrow> val) \<Rightarrow> filter_op list \<Rightarrow> bool" where
  "matches orf col q = list_all (sat orf col) q"

section \<open>Budget buckets\<close>

text \<open>
  \<open>fetchMatches\<close> of finder.js applies four independent \<open>if\<close>s on the budget string;
  \<open>loadExperiences\<close> of the experiences page applies the same four inside \<open>if (budget)\<close>.
\<close>

definition finder_budget :: "string \<Rightarrow> filter_op list" where
  "finder_budget budget =
     (if budget = ''under_50'' then [Lte ''min_price'' 50] else []) @
     (if budget = ''50_100'' then [Gte ''min_price'' 50, Lte ''min_price'' 100] else []) @
     (if budget = ''100_200'' then [Gte ''min_price'' 100, Lte ''min_price'' 200] else []) @
     (if budget = ''200_plus'' then [Gte ''min_price'' 200] else [])"

definition experiences_budget :: "string \<Rightarrow> filter_op list" where
  "experiences_budget budget =
     (if budget \<noteq> [] then
        (if budget = ''under_50'' then [Lte ''min_price'' 50] else []) @
        (if budget = ''50_100'' then [Gte ''min_price'' 50, Lte ''min_price'' 100] else []) @
        (if budget = ''100_200'' then [Gte ''min_price'' 100, Lte ''min_price'' 200] else []) @
        (if budget = ''200_plus'' then [Gte ''min_price'' 200] else [])
      else [])"

text \<open>A row passes a bucket when it satisfies every filter the bucket adds to the query.\<close>

definition in_bucket :: "string \<Rightarrow> experience \<Rightarrow> bool" where
  "in_bucket budget r = matches (\<lambda>_ _. False) (column r) (finder_budget budget)"

definition in_bucket_experiences :: "string \<Rightarrow> experience \<Rightarrow> bool" where
  "in_bucket_experiences budget r = matches (\<lambda>_ _. False) (column r) (experiences_budget budget)"

lemma experiences_budget_eq: "experiences_budget b = finder_budget b"
  by (auto simp: experiences_budget_def finder_budget_def)

lemma in_bucket_under_50: "in_bucket ''under_50'' r \<longleftrightarrow> (\<exists>p. min_price r = Some p \<and> p \<le> 50)"
  by (auto simp: in_bucket_def matches_def finder_budget_def column_def opt_num_def split: option.splits)

lemma in_bucket_50_100:
  "in_bucket ''50_100'' r \<longleftrightarrow> (\<exists>p. min_price r = Some p \<and> 50 \<le> p \<and> p \<le> 100)"
  by (auto simp: in_bucket_def matches_def finder_budget_def column_def opt_num_def split: option.splits)

lemma in_bucket_100_200:
  "in_bucket ''100_200'' r \<longleftrightarrow> (\<exists>p. min_price r = Some p \<and> 100 \<le> p \<and> p \<le> 200)"
  by (auto simp: in_bucket_def matches_def finder_budget_def column_def opt_num_def split: option.splits)

lemma in_bucket_200_plus: "in_bucket ''200_plus'' r \<longleftrightarrow> (\<exists>p. min_price r = Some p \<and> 200 \<le> p)"
  by (auto simp: in_bucket_def matches_def finder_budget_def column_def opt_num_def split: option.splits)

text \<open>A row of which only the minimum price is set, for concrete evaluation.\<close>

definition priced :: "real \<Rightarrow> experience" where
  "priced p = \<lparr>experience_id = ''e1'', title = None, short_description = None,
     event_description = None, county = None, min_price = Some p, max_price = None,
     status = None, is_published = None, booking_url = None, created_at = 0,
     business = None,
     image_list = []\<rparr>"

lemma min_price_priced: "min_price (priced p) = Some p"
  by (simp add: priced_def)

text \<open>
  C1 as stated (any two distinct buckets are mutually exclusive, under-50 excludes the
  value 50) fails: \<open>under_50\<close> is \<open>.lte('min_price', 50)\<close>, so a price of exactly 50 passes
  both \<open>under_50\<close> and \<open>50_100\<close>; likewise 100 passes \<open>50_100\<close> and \<open>100_200\<close>, and 200
  passes \<open>100_200\<close> and \<open>200_plus\<close>.
\<close>

theorem budget_buckets_overlap_counterexample:
  "in_bucket ''under_50'' (priced 50) \<and> in_bucket ''50_100'' (priced 50)
   \<and> ''under_50'' \<noteq> ''50_100''
   \<and> in_bucket ''50_100'' (priced 100) \<and> in_bucket ''100_200'' (priced 100)
   \<and> in_bucket ''100_200'' (priced 200) \<and> in_bucket ''200_plus'' (priced 200)"
  by (simp add: in_bucket_under_50 in_bucket_50_100 in_bucket_100_200 in_bucket_200_plus
      min_price_priced)

text \<open>
  C1, amended to what the two pages compute. For a row with minimum price \<open>p\<close>, \<open>p\<close> not
  negative: the four bucket predicates together cover the price line; two distinct buckets
  hold together only for adjacent buckets and only at the threshold they share (50, 100 or
  200), every bound being inclusive; so \<open>under_50\<close> includes 50 and \<open>50_100\<close> includes 50 and
  100. The experiences page uses the same predicates as the finder.
\<close>

theorem budget_buckets_cover_and_meet:
  assumes "min_price r = Some p" and "0 \<le> p"
  shows "(in_bucket ''under_50'' r \<or> in_bucket ''50_100'' r
            \<or> in_bucket ''100_200'' r \<or> in_bucket ''200_plus'' r)
       \<and> (in_bucket ''under_50'' r \<and> in_bucket ''50_100'' r \<longleftrightarrow> p = 50)
       \<and> (in_bucket ''50_100'' r \<and> in_bucket ''100_200'' r \<longleftrightarrow> p = 100)
       \<and> (in_bucket ''100_200'' r \<and> in_bucket ''200_plus'' r \<longleftrightarrow> p = 200)
       \<and> \<not> (in_bucket ''under_50'' r \<and> in_bucket ''100_200'' r)
       \<and> \<not> (in_bucket ''under_50'' r \<and> in_bucket ''200_plus'' r)
       \<and> \<not> (in_bucket ''50_100'' r \<and> in_bucket ''200_plus'' r)
       \<and> (in_bucket ''under_50'' r \<longleftrightarrow> p \<le> 50)
       \<and> (in_bucket ''50_100'' r \<longleftrightarrow> 50 \<le> p \<and> p \<le> 100)
       \<and> (in_bucket ''100_200'' r \<longleftrightarrow> 100 \<le> p \<and> p \<le> 200)
       \<and> (in_bucket ''200_plus'' r \<longleftrightarrow> 200 \<le> p)
       \<and> (\<forall>b. in_bucket_experiences b r = in_bucket b r)"
proof -
  have same: "\<forall>b. in_bucket_experiences b r = in_bucket b r"
    by (simp add: in_bucket_experiences_def in_bucket_def experiences_budget_eq)
  have u: "in_bucket ''under_50'' r \<longleftrightarrow> p \<le> 50"
    using assms(1) by (simp add: in_bucket_under_50)
  have a: "in_bucket ''50_100'' r \<longleftrightarrow> 50 \<le> p \<and> p \<le> 100"
    using assms(1) by (simp add: in_bucket_50_100)
  have b: "in_bucket ''100_200'' r \<longleftrightarrow> 100 \<le> p \<and> p \<le> 200"
    using assms(1) by (simp add: in_bucket_100_200)
  have c: "in_bucket ''200_plus'' r \<longleftrightarrow> 200 \<le> p"
    using assms(1) by (simp add: in_bucket_200_plus)
  show ?thesis
    unfolding u a b c using same by auto
qed

theorem budget_buckets_cover_and_meet_witness:
  "in_bucket ''50_100'' (priced 100) \<and> in_bucket ''100_200'' (priced 100)
   \<and> \<not> in_bucket ''under_50'' (priced 100) \<and> \<not> in_bucket ''200_plus'' (priced 100)
   \<and> in_bucket_experiences ''100_200'' (priced 100)"
  using budget_buckets_cover_and_meet [of "priced 100" 100]
  by (simp add: min_price_priced)

section \<open>The store, its requests and its replies\<close>

text \<open>
  A request is the table, the chained filters and the modifiers (\<open>.limit\<close>, \<open>.single\<close>,
  \<open>.maybeSingle\<close>, \<open>count\<close>/\<open>head\<close>, \<open>.order\<close> with its ascending flag), or a mutation, or
  the call that reads the signed-in user, or the sign-out. The client library answers a request with \<open>{ data, error }\<close>; the awaited promise
  may also reject. Which requests the store fails, and how, is part of the store.
\<close>

datatype modifier = Limit nat | Single | MaybeSingle | CountHead | Order string bool

datatype request =
    Select string "filter_op list" "modifier list"
  | Insert string "(string \<times> val) list"
  | Delete string "filter_op list"
  | GetUser
  | SignOut

datatype fault = Fails string | Throws string

datatype 'a reply = Data 'a | Error string | Rejected string

record link_row =
  link_category_id :: "string option"
  link_experience_id :: "string option"

definition link_column :: "link_row \<Rightarrow> string \<Rightarrow> val" where
  "link_column l c =
     (if c = ''category_id'' then opt_str (link_category_id l)
      else if c = ''experience_id'' then opt_str (link_experience_id l)
      else VNull)"

record user_row =
  user_id :: string
  role :: "string option"

record favorite_row =
  fav_user_id :: string
  fav_experience_id :: string

record event_row =
  ev_experience_id :: string
  ev_event_type :: string
  ev_source :: string
  ev_session_id :: string
  ev_user_id :: "string option"

text \<open>A row of the read-only views \<open>event_metric_v\<close> and \<open>favorite_v\<close>.\<close>

record metric_row =
  m_business_id :: string
  m_experience_id :: string
  m_event_type :: "string option"
  m_created_at :: real

text \<open>
  Rows of the daily views \<open>metrics_events_daily_v\<close> and \<open>metrics_saves_daily_v\<close>; a day
  (\<open>YYYY-MM-DD\<close> in the scripts) is kept as the number of days since the epoch.
\<close>

record daily_event_row =
  de_business_id :: string
  de_experience_id :: string
  de_day :: int
  de_event_type :: "string option"
  de_total :: "nat option"

record daily_save_row =
  ds_business_id :: string
  ds_experience_id :: string
  ds_day :: int
  ds_saves :: "nat option"

record store =
  experiences :: "experience list"
  experience_category :: "link_row list"
  users :: "user_row list"
  session_user :: "string option"
  favorite :: "favorite_row list"
  event_metric :: "event_row list"
  visitor_session :: "string list"
  event_metric_v :: "metric_row list"
  favorite_v :: "metric_row list"
  metrics_events_daily_v :: "daily_event_row list"
  metrics_saves_daily_v :: "daily_save_row list"
  fault :: "request \<Rightarrow> fault option"
  or_filter :: or_semantics

definition answer :: "store \<Rightarrow> request \<Rightarrow> 'a \<Rightarrow> 'a reply" where
  "answer st rq x =
     (case fault st rq of
        None \<Rightarrow> Data x
      | Some (Fails e) \<Rightarrow> Error e
      | Some (Throws e) \<Rightarrow> Rejected e)"

definition select_from ::
  "or_semantics \<Rightarrow> ('r \<Rightarrow> string \<Rightarrow> val) \<Rightarrow> 'r list \<Rightarrow> filter_op list \<Rightarrow> 'r list" where
  "select_from orf col rows q = filter (\<lambda>r. matches orf (col r) q) rows"

section \<open>finder.js: the live match query\<close>

text \<open>
  \<open>[...new Set(xs)]\<close> keeps the first occurrence of each element, in order.
\<close>

fun uniq :: "'a list \<Rightarrow> 'a list" where
  "uniq [] = []"
| "uniq (x # xs) = x # uniq (filter (\<lambda>y. y \<noteq> x) xs)"

text \<open>
  An asynchronous function is modelled by the list of requests it issued, in order, and
  its outcome: \<open>Inl e\<close> when it throws \<open>e\<close>, \<open>Inr v\<close> when it returns \<open>v\<close>.
\<close>

definition getExperienceIdsForCategory ::
  "store \<Rightarrow> string \<Rightarrow> request list \<times> (string + val list)" where
  "getExperienceIdsForCategory st categoryId =
     (let rq = Select ''experience_category'' [Eq ''category_id'' (VStr categoryId)] [] in
      ([rq],
       case answer st rq (select_from (or_filter st) link_column (experience_category st)
                            [Eq ''category_id'' (VStr categoryId)]) of
         Error e \<Rightarrow> Inl e
       | Rejected e \<Rightarrow> Inl e
       | Data rows \<Rightarrow> Inr (uniq (map (\<lambda>r. opt_str (link_experience_id r)) rows))))"

definition finder_query :: "val list option \<Rightarrow> string \<Rightarrow> string \<Rightarrow> filter_op list" where
  "finder_query categoryExperienceIds county_sel budget =
     [In ''status'' [VStr ''approved'', VStr ''Approved''], Eq ''is_published'' (VBool True)] @
     (if county_sel \<noteq> [] then [Eq ''county'' (VStr county_sel)] else []) @
     finder_budget budget @
     (case categoryExperienceIds of Some ids \<Rightarrow> [In ''experience_id'' ids] | None \<Rightarrow> [])"

definition finder_main ::
  "store \<Rightarrow> val list option \<Rightarrow> string \<Rightarrow> string
     \<Rightarrow> request list \<times> (string + experience list)" where
  "finder_main st categoryExperienceIds county_sel budget =
     (let q = finder_query categoryExperienceIds county_sel budget;
          rq = Select ''experiences'' q [Limit 3] in
      ([rq],
       case answer st rq (take 3 (select_from (or_filter st) column (experiences st) q)) of
         Error e \<Rightarrow> Inl e
       | Rejected e \<Rightarrow> Inl e
       | Data rows \<Rightarrow> Inr rows))"

definition fetchMatches ::
  "store \<Rightarrow> string \<Rightarrow> string \<Rightarrow> string
     \<Rightarrow> request list \<times> (string + experience list)" where
  "fetchMatches st categoryId county_sel budget =
     (if categoryId \<noteq> [] then
        (case getExperienceIdsForCategory st categoryId of
           (tr, Inl e) \<Rightarrow> (tr, Inl e)
         | (tr, Inr ids) \<Rightarrow>
             if ids = [] then (tr, Inr [])
             else (let (tr', res) = finder_main st (Some ids) county_sel budget
                   in (tr @ tr', res)))
      else finder_main st None county_sel budget)"

section \<open>The experiences page: \<open>loadExperiences\<close>\<close>

text \<open>Decimal digits of a natural number, for \<open>`${list.length} experiences found`\<close>.\<close>

fun show_nat :: "nat \<Rightarrow> string" where
  "show_nat n =
     (if n < 10 then [''0123456789'' ! n]
      else show_nat (n div 10) @ [''0123456789'' ! (n mod 10)])"

declare show_nat.simps [simp del]

text \<open>
  What the results grid shows: the loading notice, the fixed empty-state notice, the
  cards of a non-empty list of rows, or the fixed failure notice.
\<close>

datatype grid = Grid_loading | Grid_no_results | Grid_cards "experience list" | Grid_failed

record results_dom =
  resultsMeta :: string
  experiencesGrid :: grid

text \<open>
  The experiences page has its own \<open>getExperienceIdsForCategory\<close>: it returns \<open>null\<close>
  without a request for an empty category id, and drops falsy ids (\<open>.filter(Boolean)\<close>).
\<close>

definition truthy_str :: "string option \<Rightarrow> bool" where
  "truthy_str s = (case s of None \<Rightarrow> False | Some x \<Rightarrow> x \<noteq> [])"

definition getExperienceIdsForCategory_exp ::
  "store \<Rightarrow> string \<Rightarrow> request list \<times> (string + val list option)" where
  "getExperienceIdsForCategory_exp st categoryId =
     (if categoryId = [] then ([], Inr None)
      else
        (let rq = Select ''experience_category'' [Eq ''category_id'' (VStr categoryId)] [] in
         ([rq],
          case answer st rq (select_from (or_filter st) link_column (experience_category st)
                               [Eq ''category_id'' (VStr categoryId)]) of
            Error e \<Rightarrow> Inl e
          | Rejected e \<Rightarrow> Inl e
          | Data rows \<Rightarrow>
              Inr (Some (map opt_str (filter truthy_str (map link_experience_id rows)))))))"

definition experiences_query ::
  "string \<Rightarrow> val list option \<Rightarrow> string \<Rightarrow> string \<Rightarrow> filter_op list" where
  "experiences_query searchText categoryExperienceIds county_sel budget =
     [In ''status'' [VStr ''approved'', VStr ''Approved''], Eq ''is_published'' (VBool True)] @
     (if searchText \<noteq> []
      then [Or (''title.ilike.%'' @ searchText @ ''%,event_description.ilike.%'' @ searchText @ ''%'')]
      else []) @
     (if county_sel \<noteq> [] then [Eq ''county'' (VStr county_sel)] else []) @
     experiences_budget budget @
     (case categoryExperienceIds of Some ids \<Rightarrow> [In ''experience_id'' ids] | None \<Rightarrow> [])"

definition renderExperiences :: "experience list \<Rightarrow> grid" where
  "renderExperiences list = (if list = [] then Grid_no_results else Grid_cards list)"

definition failed_dom :: results_dom where
  "failed_dom = \<lparr>resultsMeta = ''Error loading experiences'', experiencesGrid = Grid_failed\<rparr>"

definition experiences_main ::
  "store \<Rightarrow> string \<Rightarrow> val list option \<Rightarrow> string \<Rightarrow> string \<Rightarrow> request list \<times> results_dom" where
  "experiences_main st searchText categoryExperienceIds county_sel budget =
     (let q = experiences_query searchText categoryExperienceIds county_sel budget;
          rq = Select ''experiences'' q [] in
      ([rq],
       case answer st rq (select_from (or_filter st) column (experiences st) q) of
         Error e \<Rightarrow> failed_dom
       | Rejected e \<Rightarrow> failed_dom
       | Data list \<Rightarrow>
           \<lparr>resultsMeta = show_nat (length list) @ '' experiences found'',
            experiencesGrid = renderExperiences list\<rparr>))"

text \<open>
  \<open>loadExperiences\<close>: the page's results elements may be missing (\<open>None\<close>), in which case
  the function returns at once. The four selections are what \<open>getFilters\<close> read.
\<close>

definition loadExperiences ::
  "store \<Rightarrow> results_dom option \<Rightarrow> string \<Rightarrow> string \<Rightarrow> string \<Rightarrow> string
     \<Rightarrow> request list \<times> results_dom option" where
  "loadExperiences st els searchText categoryId county_sel budget =
     (case els of
        None \<Rightarrow> ([], None)
      | Some d \<Rightarrow>
          if categoryId \<noteq> [] then
            (case getExperienceIdsForCategory_exp st categoryId of
               (tr, Inl e) \<Rightarrow> (tr, Some failed_dom)
             | (tr, Inr None) \<Rightarrow> (tr, Some failed_dom)
             | (tr, Inr (Some ids)) \<Rightarrow>
                 if ids = [] then
                   (tr, Some \<lparr>resultsMeta = ''0 experiences found'',
                               experiencesGrid = Grid_no_results\<rparr>)
                 else (let (tr', d') = experiences_main st searchText (Some ids) county_sel budget
                       in (tr @ tr', Some d')))
          else (let (tr', d') = experiences_main st searchText None county_sel budget
                in (tr', Some d')))"

text \<open>A request reads the main entity table when it is a select on \<open>experiences\<close>.\<close>

fun is_experiences_query :: "request \<Rightarrow> bool" where
  "is_experiences_query (Select t q m) = (t = ''experiences'')"
| "is_experiences_query _ = False"

lemma getExperienceIdsForCategory_trace:
  "getExperienceIdsForCategory st c = (tr, res) \<Longrightarrow> \<not> list_ex is_experiences_query tr"
  by (auto simp: getExperienceIdsForCategory_def Let_def)

lemma getExperienceIdsForCategory_exp_trace:
  "getExperienceIdsForCategory_exp st c = (tr, res) \<Longrightarrow> \<not> list_ex is_experiences_query tr"
  by (auto simp: getExperienceIdsForCategory_exp_def Let_def split: if_splits)

text \<open>
  C3. When a category is selected and the link-table lookup yields no experience ids,
  \<open>fetchMatches\<close> returns the empty list and \<open>loadExperiences\<close> shows "0 experiences
  found" with the empty-state grid; in both, the only request issued is the lookup: no
  query on \<open>experiences\<close> is sent.
\<close>

theorem empty_category_short_circuits:
  assumes "categoryId \<noteq> []"
  shows "(getExperienceIdsForCategory st categoryId = (tr, Inr []) \<longrightarrow>
            fetchMatches st categoryId county_sel budget = (tr, Inr [])
            \<and> \<not> list_ex is_experiences_query (fst (fetchMatches st categoryId county_sel budget)))
       \<and> (getExperienceIdsForCategory_exp st categoryId = (tr', Inr (Some [])) \<longrightarrow>
            loadExperiences st (Some d) searchText categoryId county_sel budget
              = (tr', Some \<lparr>resultsMeta = ''0 experiences found'',
                             experiencesGrid = Grid_no_results\<rparr>)
            \<and> \<not> list_ex is_experiences_query
                  (fst (loadExperiences st (Some d) searchText categoryId county_sel budget)))"
proof (intro conjI impI)
  assume a: "getExperienceIdsForCategory st categoryId = (tr, Inr [])"
  show f: "fetchMatches st categoryId county_sel budget = (tr, Inr [])"
    using assms a by (simp add: fetchMatches_def)
  show "\<not> list_ex is_experiences_query (fst (fetchMatches st categoryId county_sel budget))"
    using f getExperienceIdsForCategory_trace [OF a] by simp
next
  assume b: "getExperienceIdsForCategory_exp st categoryId = (tr', Inr (Some []))"
  show l: "loadExperiences st (Some d) searchText categoryId county_sel budget
        = (tr', Some \<lparr>resultsMeta = ''0 experiences found'', experiencesGrid = Grid_no_results\<rparr>)"
    using assms b by (simp add: loadExperiences_def)
  show "\<not> list_ex is_experiences_query
          (fst (loadExperiences st (Some d) searchText categoryId county_sel budget))"
    using l getExperienceIdsForCategory_exp_trace [OF b] by simp
qed

text \<open>
  A concrete store for evaluation: one approved and published experience priced 60, no
  category links, one signed-in user, no faults.
\<close>

definition approved_row :: experience where
  "approved_row = (priced 60)\<lparr>status := Some ''approved'', is_published := Some True\<rparr>"

definition demo_store :: store where
  "demo_store = \<lparr>experiences = [approved_row], experience_category = [],
     users = [\<lparr>user_id = ''u1'', role = Some ''user''\<rparr>], session_user = Some ''u1'',
     favorite = [], event_metric = [], visitor_session = [],
     event_metric_v = [], favorite_v = [],
     metrics_events_daily_v = [], metrics_saves_daily_v = [],
     fault = (\<lambda>_. None), or_filter = (\<lambda>_ _. False)\<rparr>"

definition demo_dom :: results_dom where
  "demo_dom = \<lparr>resultsMeta = [], experiencesGrid = Grid_loading\<rparr>"

lemma demo_lookup:
  "getExperienceIdsForCategory demo_store ''c1''
     = ([Select ''experience_category'' [Eq ''category_id'' (VStr ''c1'')] []], Inr [])"
  by (simp add: getExperienceIdsForCategory_def answer_def select_from_def demo_store_def)

lemma demo_lookup_exp:
  "getExperienceIdsForCategory_exp demo_store ''c1''
     = ([Select ''experience_category'' [Eq ''category_id'' (VStr ''c1'')] []], Inr (Some []))"
  by (simp add: getExperienceIdsForCategory_exp_def answer_def select_from_def demo_store_def)

theorem empty_category_short_circuits_witness:
  "fetchMatches demo_store ''c1'' [] []
     = ([Select ''experience_category'' [Eq ''category_id'' (VStr ''c1'')] []], Inr [])
   \<and> loadExperiences demo_store (Some demo_dom) [] ''c1'' [] []
     = ([Select ''experience_category'' [Eq ''category_id'' (VStr ''c1'')] []],
        Some \<lparr>resultsMeta = ''0 experiences found'', experiencesGrid = Grid_no_results\<rparr>)
   \<and> fst (fetchMatches demo_store [] [] []) \<noteq> []"
  using empty_category_short_circuits [of "''c1''" demo_store
      "[Select ''experience_category'' [Eq ''category_id'' (VStr ''c1'')] []]" "[]" "[]"
      "[Select ''experience_category'' [Eq ''category_id'' (VStr ''c1'')] []]" demo_dom "[]"]
  by (simp add: demo_lookup demo_lookup_exp fetchMatches_def finder_main_def Let_def)

section \<open>The role-aware navigation gate\<close>

text \<open>
  The three navigation blocks of a page; \<open>None\<close> is an element the page does not have
  (each write is guarded by \<open>if (navGuest) ...\<close>), \<open>Some d\<close> is its \<open>style.display\<close>.
\<close>

record nav =
  navGuest :: "string option"
  navUser :: "string option"
  navBusiness :: "string option"

definition set_display :: "string \<Rightarrow> string option \<Rightarrow> string option" where
  "set_display d el = (case el of None \<Rightarrow> None | Some _ \<Rightarrow> Some d)"

definition nav_default :: "nav \<Rightarrow> nav" where
  "nav_default n = \<lparr>navGuest = set_display ''flex'' (navGuest n),
                     navUser = set_display ''none'' (navUser n),
                     navBusiness = set_display ''none'' (navBusiness n)\<rparr>"

definition nav_for_role :: "string \<Rightarrow> nav \<Rightarrow> nav" where
  "nav_for_role r n =
     (let n1 = n\<lparr>navGuest := set_display ''none'' (navGuest n)\<rparr> in
      if r = ''business'' then n1\<lparr>navBusiness := set_display ''flex'' (navBusiness n1)\<rparr>
      else n1\<lparr>navUser := set_display ''flex'' (navUser n1)\<rparr>)"

definition nav_fallback_user :: "nav \<Rightarrow> nav" where
  "nav_fallback_user n = \<lparr>navGuest = set_display ''none'' (navGuest n),
                           navUser = set_display ''flex'' (navUser n),
                           navBusiness = set_display ''none'' (navBusiness n)\<rparr>"

text \<open>How an asynchronous function ended: it returned, or it threw (its promise rejected).\<close>

datatype outcome = Returned | Threw string

definition user_column :: "user_row \<Rightarrow> string \<Rightarrow> val" where
  "user_column u c =
     (if c = ''user_id'' then VStr (user_id u)
      else if c = ''role'' then opt_str (role u)
      else VNull)"

text \<open>\<open>.single()\<close> answers with an error unless exactly one row matches.\<close>

definition single_reply :: "store \<Rightarrow> request \<Rightarrow> 'a list \<Rightarrow> 'a reply" where
  "single_reply st rq rows =
     (case answer st rq rows of
        Data [r] \<Rightarrow> Data r
      | Data _ \<Rightarrow> Error ''PGRST116''
      | Error e \<Rightarrow> Error e
      | Rejected e \<Rightarrow> Rejected e)"

definition role_request :: "string \<Rightarrow> request" where
  "role_request uid = Select ''users'' [Eq ''user_id'' (VStr uid)] [Single]"

definition role_lookup :: "store \<Rightarrow> string \<Rightarrow> user_row reply" where
  "role_lookup st uid =
     single_reply st (role_request uid)
       (select_from (or_filter st) user_column (users st) [Eq ''user_id'' (VStr uid)])"

text \<open>
  \<open>auth.getUser()\<close>: the signed-in user's id, or none. With an error result the library
  answers \<open>{ data: { user: null }, error }\<close>, so the destructured \<open>user\<close> is null.
\<close>

definition get_user :: "store \<Rightarrow> string option reply" where
  "get_user st = answer st GetUser (session_user st)"

text \<open>\<open>userRow?.role || 'user'\<close>: a missing row, a null role and an empty role give 'user'.\<close>

definition role_or_user :: "user_row option \<Rightarrow> string" where
  "role_or_user u =
     (case u of None \<Rightarrow> ''user''
      | Some r \<Rightarrow> (case role r of None \<Rightarrow> ''user'' | Some x \<Rightarrow> if x = [] then ''user'' else x))"


text \<open>
  The experiences page, \<open>updateNavForAuthState\<close>: no \<open>try\<close>; \<open>getUser\<close> is awaited before
  the defaults are written, and a rejected lookup leaves the function by the exception.
\<close>

definition updateNavForAuthState_exp :: "store \<Rightarrow> nav \<Rightarrow> request list \<times> nav \<times> outcome" where
  "updateNavForAuthState_exp st n =
     (case get_user st of
        Rejected e \<Rightarrow> ([GetUser], n, Threw e)
      | Error e \<Rightarrow> ([GetUser], nav_default n, Returned)
      | Data None \<Rightarrow> ([GetUser], nav_default n, Returned)
      | Data (Some uid) \<Rightarrow>
          (case role_lookup st uid of
             Rejected e \<Rightarrow> ([GetUser, role_request uid], nav_default n, Threw e)
           | Error e \<Rightarrow>
               ([GetUser, role_request uid], nav_for_role (role_or_user None) (nav_default n),
                Returned)
           | Data row \<Rightarrow>
               ([GetUser, role_request uid],
                nav_for_role (role_or_user (Some row)) (nav_default n), Returned)))"

text \<open>
  The detail page, \<open>setNavState(user)\<close>: the caller passes the user; only the role lookup
  is inside \<open>try\<close>, and the \<open>catch\<close> shows the user navigation.
\<close>

definition setNavState :: "store \<Rightarrow> string option \<Rightarrow> nav \<Rightarrow> request list \<times> nav \<times> outcome" where
  "setNavState st user n =
     (let n0 = nav_default n in
      case user of
        None \<Rightarrow> ([], n0, Returned)
      | Some uid \<Rightarrow>
          (case role_lookup st uid of
             Rejected e \<Rightarrow> ([role_request uid], nav_fallback_user n0, Returned)
           | Error e \<Rightarrow> ([role_request uid], nav_for_role (role_or_user None) n0, Returned)
           | Data row \<Rightarrow> ([role_request uid], nav_for_role (role_or_user (Some row)) n0, Returned)))"

text \<open>Which navigation blocks are displayed, and the three variants.\<close>

definition shown :: "string option \<Rightarrow> bool" where
  "shown el = (el = Some ''flex'')"

definition guest_nav :: "nav \<Rightarrow> bool" where
  "guest_nav n = (shown (navGuest n) \<and> \<not> shown (navUser n) \<and> \<not> shown (navBusiness n))"













text \<open>A page with all three navigation blocks, and a store whose role lookup rejects.\<close>

definition demo_nav :: nav where
  "demo_nav = \<lparr>navGuest = Some ''flex'', navUser = Some ''none'', navBusiness = Some ''none''\<rparr>"

definition rejecting_store :: store where
  "rejecting_store =
     demo_store\<lparr>fault := (\<lambda>rq. if rq = role_request ''u1'' then Some (Throws ''network'')
                               else None)\<rparr>"


lemma rejecting_store_facts:
  "get_user rejecting_store = Data (Some ''u1'')"
  "role_lookup rejecting_store ''u1'' = Rejected ''network''"
  by (simp_all add: rejecting_store_def demo_store_def get_user_def role_lookup_def
        single_reply_def answer_def role_request_def)


text \<open>
  On the experiences page the same rejected lookup leaves \<open>updateNavForAuthState\<close> by
  the exception, with the guest navigation already written.
\<close>

lemma experiences_nav_rejected_throws:
  "snd (snd (updateNavForAuthState_exp rejecting_store demo_nav)) = Threw ''network''
   \<and> guest_nav (fst (snd (updateNavForAuthState_exp rejecting_store demo_nav)))"
  by (simp add: rejecting_store_facts updateNavForAuthState_exp_def nav_default_def
      demo_nav_def set_display_def guest_nav_def shown_def)




section \<open>Primary image selection\<close>

text \<open>
  finder.js and the experiences page share \<open>getPrimaryImageUrl\<close>:
  \<open>imgs.find(i => i.is_primary) || imgs[0]\<close>, then \<open>primary?.image_url || ''\<close>; the card
  uses \<open>getPrimaryImageUrl(exp) || 'https://via.placeholder.com/300x200'\<close>. The images
  are taken in the order the store returned them.
\<close>

definition flagged :: "image_row \<Rightarrow> bool" where
  "flagged i = (is_primary i = Some True)"

definition first_or_none :: "'a list \<Rightarrow> 'a option" where
  "first_or_none xs = (case xs of [] \<Rightarrow> None | x # _ \<Rightarrow> Some x)"

definition primary_of :: "image_row list \<Rightarrow> image_row option" where
  "primary_of imgs = (case find flagged imgs of Some i \<Rightarrow> Some i | None \<Rightarrow> first_or_none imgs)"

definition url_or :: "string \<Rightarrow> image_row option \<Rightarrow> string" where
  "url_or d primary =
     (case primary of
        None \<Rightarrow> d
      | Some i \<Rightarrow> (case image_url i of None \<Rightarrow> d | Some u \<Rightarrow> if u = [] then d else u))"

definition getPrimaryImageUrl :: "experience \<Rightarrow> string" where
  "getPrimaryImageUrl xp = url_or [] (primary_of (image_list xp))"

definition card_image_url :: "experience \<Rightarrow> string" where
  "card_image_url xp =
     (if getPrimaryImageUrl xp \<noteq> [] then getPrimaryImageUrl xp
      else ''https://via.placeholder.com/300x200'')"

text \<open>
  The detail page, \<open>renderDetail\<close>: the images are first sorted by
  \<open>(a.display_order ?? 999) - (b.display_order ?? 999)\<close> (the sort is stable), then
  \<open>sorted.find(i => i.is_primary) || sorted[0]\<close>, then
  \<open>primary?.image_url || `https://via.placeholder.com/1200x800?text=${encodeURIComponent(exp.title || 'Experience')}`\<close>.
  \<open>encodeURIComponent\<close> belongs to the runtime and is a parameter.
\<close>

definition order_key :: "image_row \<Rightarrow> int" where
  "order_key i = (case display_order i of None \<Rightarrow> 999 | Some d \<Rightarrow> d)"

definition sorted_images :: "image_row list \<Rightarrow> image_row list" where
  "sorted_images imgs = sort_key order_key imgs"

definition str_or :: "string \<Rightarrow> string option \<Rightarrow> string" where
  "str_or d s = (case s of None \<Rightarrow> d | Some x \<Rightarrow> if x = [] then d else x)"

definition detail_placeholder :: "(string \<Rightarrow> string) \<Rightarrow> experience \<Rightarrow> string" where
  "detail_placeholder enc xp =
     ''https://via.placeholder.com/1200x800?text='' @ enc (str_or ''Experience'' (title xp))"

definition mainUrl :: "(string \<Rightarrow> string) \<Rightarrow> experience \<Rightarrow> string" where
  "mainUrl enc xp =
     url_or (detail_placeholder enc xp) (primary_of (sorted_images (image_list xp)))"
























section \<open>Escaping and rendered markup\<close>

text \<open>
  Strings are byte strings; the pages' non-ASCII literals are written as their UTF-8
  bytes. \<open>escapeHtml\<close> is the same chain of five \<open>replaceAll\<close> calls in every file that
  has it (finder.js, the experiences page, detailed_experience.js, businessmetrics.js,
  the admin dashboard).
\<close>

definition replaceAll :: "char \<Rightarrow> string \<Rightarrow> string \<Rightarrow> string" where
  "replaceAll c r s = concat (map (\<lambda>x. if x = c then r else [x]) s)"

definition escapeHtml :: "string \<Rightarrow> string" where
  \<open>escapeHtml v =
     replaceAll (CHR 0x27) ''&#039;''
       (replaceAll (CHR 0x22) ''&quot;''
         (replaceAll CHR ''>'' ''&gt;''
           (replaceAll CHR ''<'' ''&lt;''
             (replaceAll CHR ''&'' ''&amp;'' v))))\<close>

text \<open>The entity each character ends up as.\<close>

definition entity :: "char \<Rightarrow> string" where
  \<open>entity c =
     (if c = CHR ''&'' then ''&amp;''
      else if c = CHR ''<'' then ''&lt;''
      else if c = CHR ''>'' then ''&gt;''
      else if c = CHR 0x22 then ''&quot;''
      else if c = CHR 0x27 then ''&#039;''
      else [c])\<close>

definition euro :: string where
  "euro = [CHR 0xE2, CHR 0x82, CHR 0xAC]"

definition em_dash :: string where
  "em_dash = [CHR 0xE2, CHR 0x80, CHR 0x94]"

definition bullet :: string where
  "bullet = [CHR 0xE2, CHR 0x80, CHR 0xA2]"

text \<open>
  finder.js, \<open>renderMatchCard\<close>. \<open>Number(x).toFixed(0)\<close> belongs to the runtime and is a
  parameter. Indentation and line breaks of the template literals are left out
  throughout; they carry no data.
\<close>

definition business_name_of :: "experience \<Rightarrow> string option" where
  "business_name_of xp = (case business xp of None \<Rightarrow> None | Some b \<Rightarrow> business_name b)"

definition renderMatchCard :: "(real \<Rightarrow> string) \<Rightarrow> experience \<Rightarrow> string" where
  \<open>renderMatchCard toFixed0 xp =
     (let title_e = escapeHtml (str_or ''Experience'' (title xp));
          county_e = escapeHtml (str_or ''Ireland'' (county xp));
          businessName = escapeHtml (str_or [] (business_name_of xp));
          fromPrice = (case min_price xp of
                         Some p \<Rightarrow> euro @ toFixed0 p
                       | None \<Rightarrow> euro @ em_dash);
          imgUrl = card_image_url xp
      in ''<div class="match-card">'' @
         ''<img class="match-img" src="'' @ imgUrl @ ''" alt="'' @ title_e @ ''" loading="lazy" />'' @
         ''<div class="match-body">'' @
         ''<h3>'' @ title_e @ ''</h3>'' @
         ''<p class="muted">'' @ county_e @ '' '' @ bullet @ '' From '' @ fromPrice @ ''</p>'' @
         ''<p class="muted">'' @ businessName @ ''</p>'' @
         ''</div>'' @
         ''<button class="btn-small" data-view-id="'' @ experience_id xp @ ''">View</button>'' @
         ''</div>'')\<close>

text \<open>
  dashboards/business.js, \<open>createExperienceCard\<close>. A null value interpolated into a
  template literal prints as \<open>null\<close>; \<open>experience.status.charAt(0)\<close> throws on a null
  status. \<open>primaryImage\<close> is the property \<open>loadExperiences\<close> of that file attached to the
  row. Numbers print through the runtime's conversion, a parameter. \<open>toUpperCase\<close> is
  modelled on ASCII letters.
\<close>

definition js_str :: "string option \<Rightarrow> string" where
  "js_str s = (case s of None \<Rightarrow> ''null'' | Some x \<Rightarrow> x)"

definition upper_char :: "char \<Rightarrow> char" where
  "upper_char c =
     (case map_of (zip ''abcdefghijklmnopqrstuvwxyz'' ''ABCDEFGHIJKLMNOPQRSTUVWXYZ'') c of
        Some d \<Rightarrow> d
      | None \<Rightarrow> c)"

definition truthy_num :: "real option \<Rightarrow> bool" where
  "truthy_num p = (case p of None \<Rightarrow> False | Some x \<Rightarrow> x \<noteq> 0)"

definition or_str :: "string option \<Rightarrow> string option \<Rightarrow> string option" where
  "or_str a b = (if truthy_str a then a else b)"

definition truncateText :: "string option \<Rightarrow> nat \<Rightarrow> string" where
  "truncateText text maxLength =
     (case text of
        None \<Rightarrow> []
      | Some s \<Rightarrow>
          if s = [] then []
          else if length s \<le> maxLength then s
          else take maxLength s @ ''...'')"

definition num_or_null :: "(real \<Rightarrow> string) \<Rightarrow> real option \<Rightarrow> string" where
  "num_or_null num p = (case p of None \<Rightarrow> ''null'' | Some x \<Rightarrow> num x)"

definition createExperienceCard ::
  "(real \<Rightarrow> string) \<Rightarrow> string option \<Rightarrow> experience \<Rightarrow> string + string" where
  \<open>createExperienceCard num primaryImage_prop experience =
     (case status experience of
        None \<Rightarrow> Inl ''TypeError''
      | Some st \<Rightarrow>
          (let primaryImage = str_or ''https://via.placeholder.com/400x250?text=No+Image''
                                primaryImage_prop;
               statusClass = ''status-'' @ st;
               statusText = map upper_char (take 1 st) @ drop 1 st;
               priceDisplay =
                 (if truthy_num (min_price experience) \<and> truthy_num (max_price experience)
                  then euro @ num_or_null num (min_price experience) @ '' - '' @ euro
                         @ num_or_null num (max_price experience)
                  else if truthy_num (min_price experience)
                  then ''From '' @ euro @ num_or_null num (min_price experience)
                  else ''Price TBD'');
               countyDisplay = str_or ''Location TBD'' (county experience)
           in Inr (
             ''<div class="experience-card">'' @
             ''<div class="experience-image" style="background-image: url('' @ [CHR 0x27]
               @ primaryImage @ [CHR 0x27] @ '')">'' @
             ''<span class="status-badge '' @ statusClass @ ''">'' @ statusText @ ''</span>'' @
             ''</div>'' @
             ''<div class="experience-content">'' @
             ''<h3>'' @ js_str (title experience) @ ''</h3>'' @
             ''<p class="experience-meta">'' @ countyDisplay @ ''</p>'' @
             ''<p class="experience-description">''
               @ truncateText (or_str (short_description experience) (event_description experience)) 120
               @ ''</p>'' @
             ''<div class="experience-footer">'' @
             ''<span class="experience-price">'' @ priceDisplay @ ''</span>'' @
             ''<div class="experience-actions">'' @
             ''<button class="btn-icon" onclick="editExperience('' @ [CHR 0x27]
               @ experience_id experience @ [CHR 0x27] @ '')" title="Edit">''
               @ [CHR 0xE2, CHR 0x9C, CHR 0x8F, CHR 0xEF, CHR 0xB8, CHR 0x8F] @ ''</button>'' @
             ''<button class="btn-icon" onclick="deleteExperience('' @ [CHR 0x27]
               @ experience_id experience @ [CHR 0x27] @ '')" title="Delete">''
               @ [CHR 0xF0, CHR 0x9F, CHR 0x97, CHR 0x91, CHR 0xEF, CHR 0xB8, CHR 0x8F] @ ''</button>'' @
             ''</div>'' @ ''</div>'' @ ''</div>'' @ ''</div>'')))\<close>

text \<open>
  The landing page, \<open>displayCategories\<close>: one card per category row.
  \<open>encodeURIComponent\<close> is a parameter.
\<close>

record category_row =
  category_id :: string
  category_name :: "string option"
  category_image_url :: "string option"

definition category_card :: "(string \<Rightarrow> string) \<Rightarrow> category_row \<Rightarrow> string" where
  \<open>category_card enc category =
     ''<div class="image-card" onclick="searchByCategory('' @ [CHR 0x27] @ category_id category
       @ [CHR 0x27] @ '', '' @ [CHR 0x27] @ js_str (category_name category) @ [CHR 0x27] @ '')">'' @
     ''<img src="'' @ js_str (category_image_url category) @ ''" alt="''
       @ js_str (category_name category) @ ''" onerror="this.src='' @ [CHR 0x27]
       @ ''https://via.placeholder.com/400x300?text='' @ enc (js_str (category_name category))
       @ [CHR 0x27] @ ''">'' @
     ''<div class="image-card-overlay">'' @
     ''<h3 class="image-card-title">'' @ js_str (category_name category) @ ''</h3>'' @
     ''</div>'' @ ''</div>''\<close>

datatype categories_grid = Categories_none | Categories_html string

definition displayCategories :: "(string \<Rightarrow> string) \<Rightarrow> category_row list \<Rightarrow> categories_grid" where
  "displayCategories enc categories =
     (if categories = [] then Categories_none
      else Categories_html (concat (map (category_card enc) categories)))"

lemma replaceAll_Nil: "replaceAll c r [] = []"
  by (simp add: replaceAll_def)

lemma replaceAll_append: "replaceAll c r (xs @ ys) = replaceAll c r xs @ replaceAll c r ys"
  by (simp add: replaceAll_def)

lemma replaceAll_Cons: "replaceAll c r (x # xs) = (if x = c then r else [x]) @ replaceAll c r xs"
  by (simp add: replaceAll_def)

lemma escapeHtml_append: "escapeHtml (xs @ ys) = escapeHtml xs @ escapeHtml ys"
  by (simp add: escapeHtml_def replaceAll_append)

lemma escapeHtml_single: "escapeHtml [c] = entity c"
  by (simp add: escapeHtml_def entity_def replaceAll_def)

lemma escapeHtml_entitywise: "escapeHtml s = concat (map entity s)"
proof (induction s)
  case Nil
  show ?case by (simp add: escapeHtml_def replaceAll_Nil)
next
  case (Cons c s)
  have "escapeHtml (c # s) = escapeHtml [c] @ escapeHtml s"
    using escapeHtml_append [of "[c]" s] by simp
  with Cons show ?case
    by (simp add: escapeHtml_single)
qed

lemma entity_no_markup:
  \<open>x \<in> set (entity c) \<Longrightarrow> x \<noteq> CHR ''<'' \<and> x \<noteq> CHR ''>'' \<and> x \<noteq> CHR 0x22 \<and> x \<noteq> CHR 0x27\<close>
  by (auto simp: entity_def split: if_splits)

lemma escapeHtml_no_markup:
  \<open>x \<in> set (escapeHtml s) \<Longrightarrow> x \<noteq> CHR ''<'' \<and> x \<noteq> CHR ''>'' \<and> x \<noteq> CHR 0x22 \<and> x \<noteq> CHR 0x27\<close>
  using entity_no_markup by (auto simp: escapeHtml_entitywise)

text \<open>A title and a category name that carry markup.\<close>

definition evil_row :: experience where
  "evil_row = approved_row\<lparr>title := Some ''<img src=x onerror=alert(1)>''\<rparr>"

definition evil_category :: category_row where
  "evil_category = \<lparr>category_id = ''c1'', category_name = Some ''<b>x</b>'',
     category_image_url = None\<rparr>"

lemma finder_card_escapes_title:
  "sublist ''<h3>&lt;img src=x onerror=alert(1)&gt;</h3>'' (renderMatchCard (\<lambda>_. []) evil_row)"
  by (simp add: renderMatchCard_def evil_row_def approved_row_def priced_def Let_def
        str_or_def business_name_of_def card_image_url_def getPrimaryImageUrl_def primary_of_def
        first_or_none_def url_or_def escapeHtml_def replaceAll_def euro_def bullet_def
        sublist_code)

lemma business_card_raw_title:
  "(case createExperienceCard (\<lambda>_. []) None evil_row of
      Inr html \<Rightarrow> sublist ''<h3><img src=x onerror=alert(1)></h3>'' html
    | Inl _ \<Rightarrow> False)"
  by (simp add: createExperienceCard_def evil_row_def approved_row_def priced_def Let_def
        truthy_num_def str_or_def js_str_def truncateText_def or_str_def truthy_str_def
        upper_char_def euro_def sublist_code)

lemma category_card_raw_name:
  \<open>(case displayCategories (\<lambda>s. s) [evil_category] of
      Categories_html html \<Rightarrow> sublist ''<h3 class="image-card-title"><b>x</b></h3>'' html
    | Categories_none \<Rightarrow> False)\<close>
  by (simp add: displayCategories_def category_card_def evil_category_def js_str_def
        sublist_code)

text \<open>
  C4 (every user-supplied text inserted into markup is escaped first) does not hold of
  the code: \<open>createExperienceCard\<close> of the business dashboard inserts the experience title
  as it is, and \<open>displayCategories\<close> of the landing page inserts the category name as it
  is, while \<open>escapeHtml\<close> would have produced the entity form that the finder's card
  shows for the same title.
\<close>

theorem business_card_inserts_raw_title:
  \<open>(case createExperienceCard (\<lambda>_. []) None evil_row of
      Inr html \<Rightarrow> sublist ''<h3><img src=x onerror=alert(1)></h3>'' html
    | Inl _ \<Rightarrow> False)
   \<and> (case displayCategories (\<lambda>s. s) [evil_category] of
        Categories_html html \<Rightarrow> sublist ''<h3 class="image-card-title"><b>x</b></h3>'' html
      | Categories_none \<Rightarrow> False)
   \<and> escapeHtml ''<img src=x onerror=alert(1)>'' = ''&lt;img src=x onerror=alert(1)&gt;''
   \<and> sublist ''<h3>&lt;img src=x onerror=alert(1)&gt;</h3>''
         (renderMatchCard (\<lambda>_. []) evil_row)\<close>
proof -
  have "escapeHtml ''<img src=x onerror=alert(1)>'' = ''&lt;img src=x onerror=alert(1)&gt;''"
    by (simp add: escapeHtml_def replaceAll_def)
  with business_card_raw_title category_card_raw_name finder_card_escapes_title
  show ?thesis by simp
qed

section \<open>The detail page: state and handlers\<close>

text \<open>
  detailed_experience.js keeps three page-level variables (\<open>authUser\<close>,
  \<open>currentExperienceId\<close>, \<open>isFavorited\<close>). The page state below holds them together with
  the store, the requests issued so far, the browser's local storage and the parts of the
  document the handlers write. Local storage is modelled by its two uses: the visitor
  session id, and the de-duplication entries, which the script writes as \<open>String(now)\<close>
  and reads back with \<open>Number(...)\<close> (a missing entry reads as 0); the entry is kept as the
  integer it denotes.
\<close>

record save_button =
  sb_text :: string
  sb_title :: string
  sb_opacity :: string

record detail_page =
  db :: store
  requests :: "request list"
  url_id :: "string option"
  url_src :: "string option"
  stamps :: "string \<Rightarrow> int option"
  visitor_session_id :: "string option"
  authUser :: "string option"
  currentExperienceId :: "string option"
  isFavorited :: bool
  static_bound :: bool
  nav_state :: nav
  detailError :: "string option"
  saveButton :: save_button
  rendered :: "experience option"
  mainImage :: string
  thumbs :: "string list"
  booking_bound :: "(string \<times> string) option"
  location :: "string option"
  alerts :: "string list"
  opened :: "string list"

definition issue :: "request \<Rightarrow> detail_page \<Rightarrow> detail_page" where
  "issue rq w = w\<lparr>requests := requests w @ [rq]\<rparr>"

definition favorite_column :: "favorite_row \<Rightarrow> string \<Rightarrow> val" where
  "favorite_column f c =
     (if c = ''user_id'' then VStr (fav_user_id f)
      else if c = ''experience_id'' then VStr (fav_experience_id f)
      else VNull)"

definition showError :: "string \<Rightarrow> detail_page \<Rightarrow> detail_page" where
  "showError message w =
     w\<lparr>detailError := Some (if message = [] then ''Something went wrong loading this experience.''
                              else message)\<rparr>"

definition hideError :: "detail_page \<Rightarrow> detail_page" where
  "hideError w = w\<lparr>detailError := None\<rparr>"

definition favorite_filter :: "string \<Rightarrow> string \<Rightarrow> filter_op list" where
  "favorite_filter uid experienceId =
     [Eq ''user_id'' (VStr uid), Eq ''experience_id'' (VStr experienceId)]"

text \<open>
  \<open>loadFavoriteState\<close>: \<open>.maybeSingle()\<close> gives null for no row, the row for one, and an
  error for more; any error or exception is caught and leaves \<open>isFavorited = false\<close>.
  Reading \<open>authUser.id\<close> of a null user throws inside the \<open>try\<close>.
\<close>

definition loadFavoriteState :: "string \<Rightarrow> detail_page \<Rightarrow> detail_page" where
  "loadFavoriteState experienceId w =
     (case authUser w of
        None \<Rightarrow> w\<lparr>isFavorited := False\<rparr>
      | Some uid \<Rightarrow>
          (let q = favorite_filter uid experienceId;
               rq = Select ''favorite'' q [MaybeSingle];
               w1 = issue rq w
           in case answer (db w) rq
                     (select_from (or_filter (db w)) favorite_column (favorite (db w)) q) of
                Data rows \<Rightarrow> w1\<lparr>isFavorited := (length rows = 1)\<rparr>
              | Error e \<Rightarrow> w1\<lparr>isFavorited := False\<rparr>
              | Rejected e \<Rightarrow> w1\<lparr>isFavorited := False\<rparr>))"

text \<open>
  \<open>toggleFavorite\<close> of the detail page: delete when \<open>isFavorited\<close>, insert otherwise;
  on success the flag is assigned locally; on an error or exception an alert is shown.
\<close>

definition delete_favorite :: "string \<Rightarrow> string \<Rightarrow> store \<Rightarrow> store" where
  "delete_favorite uid experienceId st =
     st\<lparr>favorite := filter (\<lambda>f. \<not> matches (or_filter st) (favorite_column f)
                                     (favorite_filter uid experienceId)) (favorite st)\<rparr>"

definition insert_favorite :: "string \<Rightarrow> string \<Rightarrow> store \<Rightarrow> store" where
  "insert_favorite uid experienceId st =
     st\<lparr>favorite := favorite st @ [\<lparr>fav_user_id = uid, fav_experience_id = experienceId\<rparr>]\<rparr>"

definition favorite_insert_request :: "string \<Rightarrow> string \<Rightarrow> request" where
  "favorite_insert_request uid experienceId =
     Insert ''favorite'' [(''user_id'', VStr uid), (''experience_id'', VStr experienceId)]"

definition toggleFavorite :: "string \<Rightarrow> detail_page \<Rightarrow> detail_page" where
  "toggleFavorite experienceId w =
     (case authUser w of
        None \<Rightarrow> w
      | Some uid \<Rightarrow>
          if isFavorited w then
            (let rq = Delete ''favorite'' (favorite_filter uid experienceId);
                 w1 = issue rq w
             in case answer (db w) rq () of
                  Data _ \<Rightarrow> w1\<lparr>db := delete_favorite uid experienceId (db w),
                                 isFavorited := False\<rparr>
                | Error e \<Rightarrow> w1\<lparr>alerts := alerts w @ [''Error updating favourites.'']\<rparr>
                | Rejected e \<Rightarrow> w1\<lparr>alerts := alerts w @ [''Error updating favourites.'']\<rparr>)
          else
            (let rq = favorite_insert_request uid experienceId;
                 w1 = issue rq w
             in case answer (db w) rq () of
                  Data _ \<Rightarrow> w1\<lparr>db := insert_favorite uid experienceId (db w),
                                 isFavorited := True\<rparr>
                | Error e \<Rightarrow> w1\<lparr>alerts := alerts w @ [''Error updating favourites.'']\<rparr>
                | Rejected e \<Rightarrow> w1\<lparr>alerts := alerts w @ [''Error updating favourites.'']\<rparr>))"

definition heart_empty :: string where
  "heart_empty = [CHR 0xE2, CHR 0x99, CHR 0xA1]"

definition heart_full :: string where
  "heart_full = [CHR 0xE2, CHR 0x99, CHR 0xA5]"

definition updateSaveButtonUI :: "detail_page \<Rightarrow> detail_page" where
  "updateSaveButtonUI w =
     (case authUser w of
        None \<Rightarrow> w\<lparr>saveButton := \<lparr>sb_text = heart_empty @ '' Save'',
                                     sb_title = ''Log in to save favourites'',
                                     sb_opacity = ''0.7''\<rparr>\<rparr>
      | Some _ \<Rightarrow>
          w\<lparr>saveButton :=
              \<lparr>sb_text = (if isFavorited w then heart_full @ '' Saved'' else heart_empty @ '' Save''),
               sb_title = (if isFavorited w then ''Remove from favourites''
                           else ''Add to favourites''),
               sb_opacity = ''1''\<rparr>\<rparr>)"

text \<open>
  \<open>renderDetail\<close>, as far as the properties below need it: the booking link's click tracking is
  wired once with the experience id and the final URL
  (\<open>exp.booking_url || biz.website_url || ''\<close>), the main image is set, and up to four
  thumbnails of the sorted images are built. The text fields it fills through
  \<open>textContent\<close> are represented by the record it was given.
\<close>

definition website_of :: "experience \<Rightarrow> string option" where
  "website_of xp = (case business xp of None \<Rightarrow> None | Some b \<Rightarrow> website_url b)"

definition finalUrl :: "experience \<Rightarrow> string" where
  "finalUrl xp = str_or (str_or [] (website_of xp)) (booking_url xp)"

definition wireBookingClickTracking :: "string \<Rightarrow> string \<Rightarrow> detail_page \<Rightarrow> detail_page" where
  "wireBookingClickTracking experienceId url w =
     (case booking_bound w of
        Some _ \<Rightarrow> w
      | None \<Rightarrow> w\<lparr>booking_bound := Some (experienceId, url)\<rparr>)"

definition renderDetail :: "(string \<Rightarrow> string) \<Rightarrow> experience \<Rightarrow> detail_page \<Rightarrow> detail_page" where
  "renderDetail enc xp w =
     (let w1 = wireBookingClickTracking (experience_id xp) (finalUrl xp) (w\<lparr>rendered := Some xp\<rparr>)
      in w1\<lparr>mainImage := mainUrl enc xp,
             thumbs := map (\<lambda>i. str_or [] (image_url i)) (take 4 (sorted_images (image_list xp)))\<rparr>)"

definition detail_query :: "string \<Rightarrow> filter_op list" where
  "detail_query experienceId =
     [Eq ''experience_id'' (VStr experienceId), Eq ''status'' (VStr ''approved''),
      Eq ''is_published'' (VBool True)]"

definition loadAndRenderExperience ::
  "(string \<Rightarrow> string) \<Rightarrow> string \<Rightarrow> detail_page \<Rightarrow> detail_page" where
  "loadAndRenderExperience enc experienceId w =
     (let w0 = hideError w;
          rq = Select ''experiences'' (detail_query experienceId) [Single];
          w1 = issue rq w0
      in case single_reply (db w) rq
                (select_from (or_filter (db w)) column (experiences (db w))
                   (detail_query experienceId)) of
           Rejected e \<Rightarrow> showError ''Something went wrong.'' w1
         | Error e \<Rightarrow> showError ''Could not load this experience.'' w1
         | Data xp \<Rightarrow>
             (let w2 = (if authUser w1 \<noteq> None then loadFavoriteState experienceId w1 else w1);
                  w3 = updateSaveButtonUI w2
              in renderDetail enc xp w3))"

subsection \<open>Metrics recorder\<close>

definition lower_char :: "char \<Rightarrow> char" where
  "lower_char c =
     (case map_of (zip ''ABCDEFGHIJKLMNOPQRSTUVWXYZ'' ''abcdefghijklmnopqrstuvwxyz'') c of
        Some d \<Rightarrow> d
      | None \<Rightarrow> c)"

definition getSourceFromUrl :: "detail_page \<Rightarrow> string" where
  "getSourceFromUrl w = map lower_char (str_or ''direct'' (url_src w))"

text \<open>
  \<open>getOrCreateVisitorSessionId\<close>: \<open>crypto.randomUUID()\<close> is an input. The insert into
  \<open>visitor_session\<close> is inside a \<open>try\<close> whose \<open>catch\<close> only warns.
\<close>

definition getOrCreateVisitorSessionId :: "string \<Rightarrow> detail_page \<Rightarrow> string \<times> detail_page" where
  "getOrCreateVisitorSessionId uuid w =
     (case or_str (visitor_session_id w) None of
        Some sessionId \<Rightarrow> (sessionId, w)
      | None \<Rightarrow>
        (let rq = Insert ''visitor_session'' [(''session_id'', VStr uuid)];
             w1 = issue rq (w\<lparr>visitor_session_id := Some uuid\<rparr>)
         in case answer (db w) rq () of
              Data _ \<Rightarrow>
                (uuid, w1\<lparr>db := (db w)\<lparr>visitor_session := visitor_session (db w) @ [uuid]\<rparr>\<rparr>)
            | Error e \<Rightarrow> (uuid, w1)
            | Rejected e \<Rightarrow> (uuid, w1)))"

definition event_payload :: "event_row \<Rightarrow> (string \<times> val) list" where
  "event_payload r =
     [(''experience_id'', VStr (ev_experience_id r)), (''event_type'', VStr (ev_event_type r)),
      (''source'', VStr (ev_source r)), (''session_id'', VStr (ev_session_id r)),
      (''user_id'', opt_str (ev_user_id r))]"

definition logEvent ::
  "string \<Rightarrow> string \<Rightarrow> string option \<Rightarrow> string \<Rightarrow> detail_page \<Rightarrow> outcome \<times> detail_page" where
  "logEvent experienceId eventType source uuid w =
     (let (sessionId, w1) = getOrCreateVisitorSessionId uuid w;
          w2 = issue GetUser w1
      in case get_user (db w1) of
           Rejected e \<Rightarrow> (Threw e, w2)
         | reply \<Rightarrow>
             (let user = (case reply of Data u \<Rightarrow> u | _ \<Rightarrow> None);
                  row = \<lparr>ev_experience_id = experienceId, ev_event_type = eventType,
                         ev_source = str_or (getSourceFromUrl w) source,
                         ev_session_id = sessionId, ev_user_id = user\<rparr>;
                  rq = Insert ''event_metric'' (event_payload row);
                  w3 = issue rq w2
              in case answer (db w1) rq () of
                   Data _ \<Rightarrow>
                     (Returned, w3\<lparr>db := (db w1)\<lparr>event_metric := event_metric (db w1) @ [row]\<rparr>\<rparr>)
                 | Error e \<Rightarrow> (Returned, w3)
                 | Rejected e \<Rightarrow> (Threw e, w3)))"

definition last_stamp :: "detail_page \<Rightarrow> string \<Rightarrow> int" where
  "last_stamp w dedupeKey = (case stamps w dedupeKey of None \<Rightarrow> 0 | Some t \<Rightarrow> t)"

definition logViewOnce :: "string \<Rightarrow> int \<Rightarrow> string \<Rightarrow> detail_page \<Rightarrow> outcome \<times> detail_page" where
  "logViewOnce experienceId now uuid w =
     (let dedupeKey = ''viewed_'' @ experienceId;
          last = last_stamp w dedupeKey
      in if now - last < 30 * 60 * 1000 then (Returned, w)
         else logEvent experienceId ''view'' None uuid
                (w\<lparr>stamps := (stamps w)(dedupeKey \<mapsto> now)\<rparr>))"

definition logBookingClickOnce ::
  "string \<Rightarrow> int \<Rightarrow> int \<Rightarrow> string \<Rightarrow> detail_page \<Rightarrow> outcome \<times> detail_page" where
  "logBookingClickOnce experienceId minutes now uuid w =
     (let dedupeKey = ''booking_'' @ experienceId;
          last = last_stamp w dedupeKey
      in if now - last < minutes * 60 * 1000 then (Returned, w)
         else logEvent experienceId ''booking_click'' None uuid
                (w\<lparr>stamps := (stamps w)(dedupeKey \<mapsto> now)\<rparr>))"

subsection \<open>Event handlers of the detail page\<close>

text \<open>
  The page reacts to: the document becoming ready, clicks on Save, on the booking link,
  on Share (the clipboard write succeeds or not), on Sign out and on a thumbnail; between
  events the store may change in any way (other clients, other faults). \<open>Date.now()\<close> and
  \<open>crypto.randomUUID()\<close> are inputs of the events that read them.
\<close>

datatype detail_event =
    DOMContentLoaded int string
  | ClickSave
  | ClickBooking int string
  | ClickShare bool
  | ClickSignOut
  | ClickThumb nat
  | StoreChanged store

definition on_ready :: "(string \<Rightarrow> string) \<Rightarrow> int \<Rightarrow> string \<Rightarrow> detail_page \<Rightarrow> detail_page" where
  "on_ready enc now uuid w =
     (let (tr, n', out) = setNavState (db w) (authUser w) (nav_state w);
          w1 = w\<lparr>requests := requests w @ tr, nav_state := n'\<rparr>;
          w2 = w1\<lparr>static_bound := True\<rparr>
      in case or_str (url_id w) None of
           None \<Rightarrow> showError ''Missing experience id in URL.'' w2
         | Some experienceId \<Rightarrow>
             (let w3 = w2\<lparr>currentExperienceId := Some experienceId\<rparr>;
                  w4 = loadAndRenderExperience enc experienceId w3
              in snd (logViewOnce experienceId now uuid w4)))"

definition on_save :: "detail_page \<Rightarrow> detail_page" where
  "on_save w =
     (if \<not> static_bound w then w
      else if authUser w = None then w\<lparr>location := Some ''auth/login.html''\<rparr>
      else (case or_str (currentExperienceId w) None of
              None \<Rightarrow> w
            | Some experienceId \<Rightarrow> updateSaveButtonUI (toggleFavorite experienceId w)))"

definition on_booking :: "int \<Rightarrow> string \<Rightarrow> detail_page \<Rightarrow> detail_page" where
  "on_booking now uuid w =
     (case booking_bound w of
        None \<Rightarrow> w
      | Some (experienceId, url) \<Rightarrow>
          if url = [] then w
          else (case logBookingClickOnce experienceId 30 now uuid w of
                  (Threw e, w') \<Rightarrow> w'
                | (Returned, w') \<Rightarrow> w'\<lparr>opened := opened w' @ [url]\<rparr>))"

definition on_share :: "bool \<Rightarrow> detail_page \<Rightarrow> detail_page" where
  "on_share copied w =
     (if \<not> static_bound w then w
      else if copied then w\<lparr>alerts := alerts w @ [''Link copied!'']\<rparr>
      else w\<lparr>alerts := alerts w @ [''Could not copy link. You can copy from the address bar.'']\<rparr>)"

definition on_sign_out :: "detail_page \<Rightarrow> detail_page" where
  "on_sign_out w =
     (if \<not> static_bound w then w
      else (let w1 = issue SignOut w
            in case answer (db w) SignOut () of
                 Data _ \<Rightarrow> w1\<lparr>db := (db w)\<lparr>session_user := None\<rparr>,
                                location := Some ''landing.html''\<rparr>
               | Error e \<Rightarrow> w1\<lparr>location := Some ''landing.html''\<rparr>
               | Rejected e \<Rightarrow> w1\<lparr>alerts := alerts w @ [''Could not sign out. Please try again.'']\<rparr>))"

definition on_thumb :: "nat \<Rightarrow> detail_page \<Rightarrow> detail_page" where
  "on_thumb k w =
     (if k < length (thumbs w) \<and> thumbs w ! k \<noteq> [] then w\<lparr>mainImage := thumbs w ! k\<rparr> else w)"

fun detail_step :: "(string \<Rightarrow> string) \<Rightarrow> detail_event \<Rightarrow> detail_page \<Rightarrow> detail_page" where
  "detail_step enc (DOMContentLoaded now uuid) w = on_ready enc now uuid w"
| "detail_step enc ClickSave w = on_save w"
| "detail_step enc (ClickBooking now uuid) w = on_booking now uuid w"
| "detail_step enc (ClickShare copied) w = on_share copied w"
| "detail_step enc ClickSignOut w = on_sign_out w"
| "detail_step enc (ClickThumb k) w = on_thumb k w"
| "detail_step enc (StoreChanged st) w = w\<lparr>db := st\<rparr>"

fun detail_run :: "(string \<Rightarrow> string) \<Rightarrow> detail_event list \<Rightarrow> detail_page \<Rightarrow> detail_page" where
  "detail_run enc [] w = w"
| "detail_run enc (e # es) w = detail_run enc es (detail_step enc e w)"

text \<open>
  A freshly loaded detail page: the script's top-level \<open>let\<close> statements give
  \<open>authUser = null\<close>, \<open>currentExperienceId = null\<close>, \<open>isFavorited = false\<close>; the store, the
  stored browser state, the URL parameters and the document's initial navigation and
  Save button are whatever they are.
\<close>

definition open_detail_page ::
  "store \<Rightarrow> (string \<Rightarrow> int option) \<Rightarrow> string option \<Rightarrow> string option \<Rightarrow> string option
     \<Rightarrow> nav \<Rightarrow> save_button \<Rightarrow> detail_page" where
  "open_detail_page st stored vsid uid usrc n sb =
     \<lparr>db = st, requests = [], url_id = uid, url_src = usrc, stamps = stored,
      visitor_session_id = vsid, authUser = None, currentExperienceId = None,
      isFavorited = False, static_bound = False, nav_state = n, detailError = None,
      saveButton = sb, rendered = None, mainImage = [], thumbs = [], booking_bound = None,
      location = None, alerts = [], opened = []\<rparr>"

section \<open>The detail page never has a user\<close>

text \<open>A request reads or writes the \<open>favorite\<close> table.\<close>

fun touches_favorite :: "request \<Rightarrow> bool" where
  "touches_favorite (Select t q m) = (t = ''favorite'')"
| "touches_favorite (Insert t p) = (t = ''favorite'')"
| "touches_favorite (Delete t q) = (t = ''favorite'')"
| "touches_favorite _ = False"

text \<open>
  The state the detail page is always in: no user, favourite flag false, and no request
  on the \<open>favorite\<close> table issued.
\<close>

definition logged_out :: "detail_page \<Rightarrow> bool" where
  "logged_out w = (authUser w = None \<and> isFavorited w = False
                   \<and> \<not> list_ex touches_favorite (requests w))"

lemma logged_out_issue:
  "logged_out w \<Longrightarrow> \<not> touches_favorite rq \<Longrightarrow> logged_out (issue rq w)"
  by (simp add: logged_out_def issue_def)

lemma logged_out_getOrCreate:
  "logged_out w \<Longrightarrow> logged_out (snd (getOrCreateVisitorSessionId uuid w))"
  by (auto simp: getOrCreateVisitorSessionId_def logged_out_def issue_def Let_def
      split: option.splits reply.splits)

lemma logged_out_logEvent:
  "logged_out w \<Longrightarrow> logged_out (snd (logEvent eid ty src uuid w))"
  using logged_out_getOrCreate [of w uuid]
  by (auto simp: logEvent_def logged_out_def issue_def Let_def
      split: option.splits reply.splits prod.splits)

lemma logged_out_stamps: "logged_out (w\<lparr>stamps := s\<rparr>) = logged_out w"
  by (simp add: logged_out_def)

lemma logged_out_logViewOnce:
  "logged_out w \<Longrightarrow> logged_out (snd (logViewOnce eid now uuid w))"
  by (simp add: logViewOnce_def Let_def logged_out_logEvent logged_out_stamps)

lemma logged_out_logBookingClickOnce:
  "logged_out w \<Longrightarrow> logged_out (snd (logBookingClickOnce eid m now uuid w))"
  by (simp add: logBookingClickOnce_def Let_def logged_out_logEvent logged_out_stamps)

lemma logged_out_loadAndRender:
  "logged_out w \<Longrightarrow> logged_out (loadAndRenderExperience enc eid w)"
  by (auto simp: loadAndRenderExperience_def logged_out_def issue_def Let_def hideError_def
      showError_def updateSaveButtonUI_def renderDetail_def wireBookingClickTracking_def
      split: option.splits reply.splits)

lemma logged_out_on_ready:
  "logged_out w \<Longrightarrow> logged_out (on_ready enc now uuid w)"
proof -
  assume a: "logged_out w"
  then have nav: "setNavState (db w) (authUser w) (nav_state w) = ([], nav_default (nav_state w), Returned)"
    by (simp add: setNavState_def logged_out_def)
  have b: "\<And>x. logged_out (w\<lparr>requests := requests w @ [], nav_state := nav_default (nav_state w), static_bound := True, currentExperienceId := x\<rparr>)"
    using a by (simp add: logged_out_def)
  have c: "logged_out (showError ''Missing experience id in URL.'' (w\<lparr>requests := requests w @ [], nav_state := nav_default (nav_state w), static_bound := True\<rparr>))"
    using a by (simp add: logged_out_def showError_def)
  show ?thesis
    using b c by (simp add: on_ready_def nav Let_def logged_out_logViewOnce logged_out_loadAndRender split: option.splits)
qed

lemma logged_out_step: "logged_out w \<Longrightarrow> logged_out (detail_step enc e w)"
proof (cases e)
  case (DOMContentLoaded now uuid)
  assume "logged_out w"
  then show ?thesis using DOMContentLoaded by (simp add: logged_out_on_ready)
next
  case ClickSave
  assume "logged_out w"
  then show ?thesis using ClickSave by (simp add: on_save_def logged_out_def)
next
  case (ClickBooking now uuid)
  assume a: "logged_out w"
  have "logged_out (on_booking now uuid w)"
  proof (cases "booking_bound w")
    case None
    then show ?thesis using a by (simp add: on_booking_def)
  next
    case (Some b)
    obtain eid url where b: "b = (eid, url)" by (cases b)
    obtain out w' where r: "logBookingClickOnce eid 30 now uuid w = (out, w')"
      by (cases "logBookingClickOnce eid 30 now uuid w")
    have l: "logged_out w'"
      using logged_out_logBookingClickOnce [OF a, of eid 30 now uuid] r by simp
    then have "logged_out (w'\<lparr>opened := opened w' @ [url]\<rparr>)"
      by (simp add: logged_out_def)
    with l a Some b r show ?thesis
      by (cases out) (simp_all add: on_booking_def)
  qed
  then show ?thesis using ClickBooking by simp
next
  case (ClickShare c)
  assume "logged_out w"
  then show ?thesis using ClickShare by (simp add: on_share_def logged_out_def)
next
  case ClickSignOut
  assume "logged_out w"
  then show ?thesis using ClickSignOut
    by (auto simp: on_sign_out_def logged_out_def issue_def Let_def split: reply.splits)
next
  case (ClickThumb k)
  assume "logged_out w"
  then show ?thesis using ClickThumb by (simp add: on_thumb_def logged_out_def)
next
  case (StoreChanged st)
  assume "logged_out w"
  then show ?thesis using StoreChanged by (simp add: logged_out_def)
qed

lemma logged_out_run: "logged_out w \<Longrightarrow> logged_out (detail_run enc es w)"
  by (induction es arbitrary: w) (simp_all add: logged_out_step)

lemma logged_out_open: "logged_out (open_detail_page st stored vsid uid usrc n sb)"
  by (simp add: logged_out_def open_detail_page_def)

lemma static_bound_getOrCreate:
  "static_bound (snd (getOrCreateVisitorSessionId uuid w)) = static_bound w"
  by (simp add: getOrCreateVisitorSessionId_def issue_def Let_def
      split: option.splits reply.splits)

lemma static_bound_logEvent: "static_bound (snd (logEvent eid ty src uuid w)) = static_bound w"
proof -
  obtain sid w1 where g: "getOrCreateVisitorSessionId uuid w = (sid, w1)"
    by (cases "getOrCreateVisitorSessionId uuid w")
  have "static_bound w1 = static_bound w"
    using static_bound_getOrCreate [of uuid w] g by simp
  then show ?thesis
    by (simp add: logEvent_def g issue_def Let_def split: reply.splits)
qed

lemma static_bound_logViewOnce: "static_bound (snd (logViewOnce eid now uuid w)) = static_bound w"
  by (simp add: logViewOnce_def Let_def static_bound_logEvent)

lemma static_bound_loadFavoriteState:
  "static_bound (loadFavoriteState eid w) = static_bound w"
  by (auto simp: loadFavoriteState_def issue_def Let_def split: option.splits reply.splits)

lemma static_bound_renderDetail: "static_bound (renderDetail enc xp w) = static_bound w"
  by (auto simp: renderDetail_def wireBookingClickTracking_def Let_def split: option.splits)

lemma static_bound_updateSaveButtonUI: "static_bound (updateSaveButtonUI w) = static_bound w"
  by (auto simp: updateSaveButtonUI_def split: option.splits)

lemma static_bound_loadAndRender:
  "static_bound (loadAndRenderExperience enc eid w) = static_bound w"
  by (simp add: loadAndRenderExperience_def issue_def Let_def hideError_def showError_def
      static_bound_renderDetail static_bound_updateSaveButtonUI static_bound_loadFavoriteState
      split: reply.splits)

lemma static_bound_on_ready: "static_bound (on_ready enc now uuid w)"
proof -
  obtain tr n' out where s: "setNavState (db w) (authUser w) (nav_state w) = (tr, n', out)"
    by (cases "setNavState (db w) (authUser w) (nav_state w)")
  show ?thesis
    by (simp add: on_ready_def s Let_def showError_def static_bound_logViewOnce
      static_bound_loadAndRender split: option.splits)
qed

text \<open>
  C9. On the detail page \<open>authUser\<close> starts as null and no handler assigns it. So in every
  state the page reaches, from any store (also one with a signed-in user), any stored
  browser state and any sequence of events: \<open>authUser\<close> is null, \<open>isFavorited\<close> is false, no
  request on the \<open>favorite\<close> table has been issued (\<open>loadFavoriteState\<close> never ran), and a
  click on Save (once the handlers are bound) does nothing but set the location to the
  login page.
\<close>

theorem detail_page_save_redirects_to_login:
  assumes "w = detail_run enc es (open_detail_page st stored vsid uid usrc n sb)"
  shows "authUser w = None \<and> \<not> isFavorited w
       \<and> \<not> list_ex touches_favorite (requests w)
       \<and> (static_bound w \<longrightarrow>
            detail_step enc ClickSave w = w\<lparr>location := Some ''auth/login.html''\<rparr>)"
proof -
  have "logged_out w"
    unfolding assms by (rule logged_out_run [OF logged_out_open])
  then show ?thesis
    by (simp add: logged_out_def on_save_def)
qed

definition demo_save_button :: save_button where
  "demo_save_button = \<lparr>sb_text = ''Save'', sb_title = [], sb_opacity = ''1''\<rparr>"

definition demo_detail_page :: detail_page where
  "demo_detail_page =
     detail_run (\<lambda>s. s) [DOMContentLoaded 2000000 ''s1'']
       (open_detail_page demo_store (\<lambda>_. None) None (Some ''e1'') None demo_nav
          demo_save_button)"

theorem detail_page_save_redirects_to_login_witness:
  "session_user demo_store = Some ''u1'' \<and> static_bound demo_detail_page
   \<and> authUser demo_detail_page = None
   \<and> location (detail_step (\<lambda>s. s) ClickSave demo_detail_page) = Some ''auth/login.html''"
  using detail_page_save_redirects_to_login [of demo_detail_page "\<lambda>s. s"
      "[DOMContentLoaded 2000000 ''s1'']" demo_store "\<lambda>_. None" None "Some ''e1''" None
      demo_nav demo_save_button]
  by (simp add: demo_detail_page_def static_bound_on_ready demo_store_def)

section \<open>Only approved and published experiences are surfaced\<close>

text \<open>
  A row may be surfaced when its status equals "approved" ignoring letter case and its
  publish flag is true. The queries project a few columns of each row; the model keeps
  the whole stored row, so that the property can speak of its status and publish flag.
\<close>

definition approved_ci :: "experience \<Rightarrow> bool" where
  "approved_ci r = (case status r of None \<Rightarrow> False | Some s \<Rightarrow> map lower_char s = ''approved'')"

definition surfaced_ok :: "experience \<Rightarrow> bool" where
  "surfaced_ok r = (approved_ci r \<and> is_published r = Some True)"

lemma sat_status_in:
  "sat orf (column r) (In ''status'' [VStr ''approved'', VStr ''Approved'']) \<Longrightarrow> approved_ci r"
  by (auto simp: column_def opt_str_def approved_ci_def lower_char_def split: option.splits)

lemma sat_status_eq:
  "sat orf (column r) (Eq ''status'' (VStr ''approved'')) \<Longrightarrow> approved_ci r"
  by (auto simp: column_def opt_str_def approved_ci_def lower_char_def split: option.splits)

lemma sat_published:
  "sat orf (column r) (Eq ''is_published'' (VBool True)) \<Longrightarrow> is_published r = Some True"
  by (auto simp: column_def opt_bool_def split: option.splits)

lemma finder_query_surfaced:
  "matches orf (column r) (finder_query ids c b) \<Longrightarrow> surfaced_ok r"
  by (simp add: matches_def finder_query_def surfaced_ok_def sat_status_in sat_published)

lemma experiences_query_surfaced:
  "matches orf (column r) (experiences_query s ids c b) \<Longrightarrow> surfaced_ok r"
  by (simp add: matches_def experiences_query_def surfaced_ok_def sat_status_in sat_published)

lemma detail_query_surfaced:
  "matches orf (column r) (detail_query eid) \<Longrightarrow> surfaced_ok r"
  by (simp add: matches_def detail_query_def surfaced_ok_def sat_status_eq sat_published)

lemma select_from_matches: "r \<in> set (select_from orf col rows q) \<Longrightarrow> matches orf (col r) q"
  by (simp add: select_from_def)

lemma finder_main_surfaced:
  assumes "snd (finder_main st ids c b) = Inr rows" and "r \<in> set rows"
  shows "surfaced_ok r"
proof -
  let ?q = "finder_query ids c b"
  let ?all = "select_from (or_filter st) column (experiences st) ?q"
  have "rows = take 3 ?all"
    using assms(1) by (simp add: finder_main_def Let_def answer_def split: option.splits fault.splits)
  then have "r \<in> set ?all"
    using assms(2) by (auto dest: in_set_takeD)
  then have "matches (or_filter st) (column r) ?q"
    by (rule select_from_matches)
  then show ?thesis
    by (rule finder_query_surfaced)
qed

lemma fetchMatches_surfaced:
  assumes "snd (fetchMatches st cid c b) = Inr rows" and "r \<in> set rows"
  shows "surfaced_ok r"
proof (cases "cid = []")
  case True
  then show ?thesis
    using assms finder_main_surfaced by (simp add: fetchMatches_def)
next
  case False
  obtain tr res where g: "getExperienceIdsForCategory st cid = (tr, res)"
    by (cases "getExperienceIdsForCategory st cid")
  show ?thesis
  proof (cases res)
    case (Inl e)
    then show ?thesis using assms False g by (simp add: fetchMatches_def)
  next
    case (Inr ids)
    show ?thesis
    proof (cases "ids = []")
      case True
      then show ?thesis using assms False g Inr by (simp add: fetchMatches_def)
    next
      case nonempty: False
      obtain tr' res' where m: "finder_main st (Some ids) c b = (tr', res')"
        by (cases "finder_main st (Some ids) c b")
      have "res' = Inr rows"
        using assms(1) False g Inr nonempty m by (simp add: fetchMatches_def)
      then show ?thesis
        using finder_main_surfaced [of st "Some ids" c b rows r] m assms(2) by simp
    qed
  qed
qed

lemma experiences_main_surfaced:
  assumes "experiencesGrid (snd (experiences_main st s ids c b)) = Grid_cards rows"
    and "r \<in> set rows"
  shows "surfaced_ok r"
proof -
  let ?q = "experiences_query s ids c b"
  let ?all = "select_from (or_filter st) column (experiences st) ?q"
  have "rows = ?all"
    using assms(1)
    by (simp add: experiences_main_def Let_def answer_def failed_dom_def renderExperiences_def
        split: option.splits fault.splits if_splits)
  then have "r \<in> set ?all"
    using assms(2) by simp
  then have "matches (or_filter st) (column r) ?q"
    by (rule select_from_matches)
  then show ?thesis
    by (rule experiences_query_surfaced)
qed

lemma loadExperiences_surfaced:
  assumes "snd (loadExperiences st els s cid c b) = Some d'"
    and "experiencesGrid d' = Grid_cards rows" and "r \<in> set rows"
  shows "surfaced_ok r"
proof (cases els)
  case None
  then show ?thesis using assms by (simp add: loadExperiences_def)
next
  case (Some d)
  show ?thesis
  proof (cases "cid = []")
    case True
    obtain tr' dd where m: "experiences_main st s None c b = (tr', dd)"
      by (cases "experiences_main st s None c b")
    have "dd = d'"
      using assms(1) Some True m by (simp add: loadExperiences_def)
    then show ?thesis
      using experiences_main_surfaced [of st s None c b rows r] m assms(2,3) by simp
  next
    case False
    obtain tr res where g: "getExperienceIdsForCategory_exp st cid = (tr, res)"
      by (cases "getExperienceIdsForCategory_exp st cid")
    show ?thesis
    proof (cases res)
      case (Inl e)
      then show ?thesis
        using assms Some False g by (auto simp: loadExperiences_def failed_dom_def)
    next
      case (Inr o_ids)
      show ?thesis
      proof (cases o_ids)
        case None
        then show ?thesis
          using assms Some False g Inr by (auto simp: loadExperiences_def failed_dom_def)
      next
        case some_ids: (Some ids)
        show ?thesis
        proof (cases "ids = []")
          case True
          then show ?thesis
            using assms Some False g Inr some_ids by (auto simp: loadExperiences_def)
        next
          case nonempty: False
          obtain tr' dd where m: "experiences_main st s (Some ids) c b = (tr', dd)"
            by (cases "experiences_main st s (Some ids) c b")
          have "dd = d'"
            using assms(1) Some False g Inr some_ids nonempty m
            by (simp add: loadExperiences_def)
          then show ?thesis
            using experiences_main_surfaced [of st s "Some ids" c b rows r] m assms(2,3) by simp
        qed
      qed
    qed
  qed
qed

text \<open>On the detail page, whatever is rendered came out of the page's own query.\<close>

definition rendered_ok :: "detail_page \<Rightarrow> bool" where
  "rendered_ok w = (case rendered w of None \<Rightarrow> True | Some r \<Rightarrow> surfaced_ok r)"

lemma rendered_issue: "rendered (issue rq w) = rendered w"
  by (simp add: issue_def)

lemma rendered_loadFavoriteState: "rendered (loadFavoriteState eid w) = rendered w"
  by (simp add: loadFavoriteState_def issue_def Let_def split: option.splits reply.splits)

lemma rendered_updateSaveButtonUI: "rendered (updateSaveButtonUI w) = rendered w"
  by (simp add: updateSaveButtonUI_def split: option.splits)

lemma rendered_toggleFavorite: "rendered (toggleFavorite eid w) = rendered w"
  by (simp add: toggleFavorite_def issue_def Let_def split: option.splits reply.splits)

lemma rendered_renderDetail: "rendered (renderDetail enc xp w) = Some xp"
  by (simp add: renderDetail_def wireBookingClickTracking_def Let_def split: option.splits)

lemma rendered_getOrCreate: "rendered (snd (getOrCreateVisitorSessionId uuid w)) = rendered w"
  by (simp add: getOrCreateVisitorSessionId_def issue_def Let_def
      split: option.splits reply.splits)

lemma rendered_logEvent: "rendered (snd (logEvent eid ty src uuid w)) = rendered w"
proof -
  obtain sid w1 where g: "getOrCreateVisitorSessionId uuid w = (sid, w1)"
    by (cases "getOrCreateVisitorSessionId uuid w")
  have "rendered w1 = rendered w"
    using rendered_getOrCreate [of uuid w] g by simp
  then show ?thesis
    by (simp add: logEvent_def g issue_def Let_def split: reply.splits)
qed

lemma rendered_logViewOnce: "rendered (snd (logViewOnce eid now uuid w)) = rendered w"
  by (simp add: logViewOnce_def Let_def rendered_logEvent)

lemma rendered_logBookingClickOnce:
  "rendered (snd (logBookingClickOnce eid m now uuid w)) = rendered w"
  by (simp add: logBookingClickOnce_def Let_def rendered_logEvent)

lemma rendered_ok_loadAndRender:
  assumes "rendered_ok w"
  shows "rendered_ok (loadAndRenderExperience enc eid w)"
proof -
  let ?rq = "Select ''experiences'' (detail_query eid) [Single]"
  let ?all = "select_from (or_filter (db w)) column (experiences (db w)) (detail_query eid)"
  show ?thesis
  proof (cases "single_reply (db w) ?rq ?all")
    case (Data xp)
    then have "?all = [xp]"
      by (auto simp: single_reply_def answer_def
          split: option.splits fault.splits list.splits reply.splits)
    then have "xp \<in> set ?all" by simp
    then have "matches (or_filter (db w)) (column xp) (detail_query eid)"
      by (rule select_from_matches)
    then have "surfaced_ok xp"
      by (rule detail_query_surfaced)
    then show ?thesis
      using Data by (simp add: loadAndRenderExperience_def Let_def rendered_ok_def
          rendered_renderDetail)
  next
    case (Error e)
    then show ?thesis
      using assms by (simp add: loadAndRenderExperience_def Let_def rendered_ok_def
          showError_def hideError_def issue_def)
  next
    case (Rejected e)
    then show ?thesis
      using assms by (simp add: loadAndRenderExperience_def Let_def rendered_ok_def
          showError_def hideError_def issue_def)
  qed
qed

lemma rendered_ok_on_ready: "rendered_ok w \<Longrightarrow> rendered_ok (on_ready enc now uuid w)"
proof -
  assume a: "rendered_ok w"
  obtain tr n' out where s: "setNavState (db w) (authUser w) (nav_state w) = (tr, n', out)"
    by (cases "setNavState (db w) (authUser w) (nav_state w)")
  have b: "\<And>x. rendered_ok (w\<lparr>requests := requests w @ tr, nav_state := n', static_bound := True,
                             currentExperienceId := x\<rparr>)"
    using a by (simp add: rendered_ok_def)
  have c: "\<And>v x. rendered_ok v \<Longrightarrow> rendered_ok (snd (logViewOnce x now uuid v))"
    by (simp add: rendered_ok_def rendered_logViewOnce)
  show ?thesis
  proof (cases "or_str (url_id w) None")
    case None
    then show ?thesis
      using a by (simp add: on_ready_def s Let_def showError_def rendered_ok_def)
  next
    case (Some x)
    then show ?thesis
      using c [OF rendered_ok_loadAndRender [OF b]] by (simp add: on_ready_def s Let_def)
  qed
qed

lemma rendered_ok_step: "rendered_ok w \<Longrightarrow> rendered_ok (detail_step enc e w)"
proof (cases e)
  case (DOMContentLoaded now uuid)
  assume "rendered_ok w"
  then show ?thesis using DOMContentLoaded by (simp add: rendered_ok_on_ready)
next
  case ClickSave
  assume "rendered_ok w"
  then show ?thesis using ClickSave
    by (simp add: on_save_def rendered_ok_def rendered_updateSaveButtonUI rendered_toggleFavorite
        split: option.splits)
next
  case (ClickBooking now uuid)
  assume a: "rendered_ok w"
  have "rendered (on_booking now uuid w) = rendered w"
  proof (cases "booking_bound w")
    case None
    then show ?thesis by (simp add: on_booking_def)
  next
    case (Some b)
    obtain eid url where b: "b = (eid, url)" by (cases b)
    obtain out w' where r: "logBookingClickOnce eid 30 now uuid w = (out, w')"
      by (cases "logBookingClickOnce eid 30 now uuid w")
    have "rendered w' = rendered w"
      using rendered_logBookingClickOnce [of eid 30 now uuid w] r by simp
    with Some b r show ?thesis
      by (cases out) (simp_all add: on_booking_def)
  qed
  then show ?thesis using a ClickBooking by (simp add: rendered_ok_def)
next
  case (ClickShare c)
  assume "rendered_ok w"
  then show ?thesis using ClickShare by (simp add: on_share_def rendered_ok_def)
next
  case ClickSignOut
  assume "rendered_ok w"
  then show ?thesis using ClickSignOut
    by (simp add: on_sign_out_def rendered_ok_def issue_def Let_def split: reply.splits)
next
  case (ClickThumb k)
  assume "rendered_ok w"
  then show ?thesis using ClickThumb by (simp add: on_thumb_def rendered_ok_def)
next
  case (StoreChanged st)
  assume "rendered_ok w"
  then show ?thesis using StoreChanged by (simp add: rendered_ok_def)
qed

lemma rendered_ok_run: "rendered_ok w \<Longrightarrow> rendered_ok (detail_run enc es w)"
  by (induction es arbitrary: w) (simp_all add: rendered_ok_step)

lemma rendered_ok_open: "rendered_ok (open_detail_page st stored vsid uid usrc n sb)"
  by (simp add: rendered_ok_def open_detail_page_def)

text \<open>A store with a draft row, an approved and published row, and an unpublished row.\<close>

definition draft_row :: experience where
  "draft_row = (priced 70)\<lparr>experience_id := ''e2'', status := Some ''draft'',
                             is_published := Some True\<rparr>"

definition unpublished_row :: experience where
  "unpublished_row = (priced 80)\<lparr>experience_id := ''e3'', status := Some ''Approved'',
                                   is_published := Some False\<rparr>"

definition mixed_store :: store where
  "mixed_store = demo_store\<lparr>experiences := [draft_row, approved_row, unpublished_row]\<rparr>"

lemma mixed_store_finder:
  "snd (fetchMatches mixed_store [] [] []) = Inr [approved_row]"
  by (simp add: fetchMatches_def finder_main_def finder_query_def finder_budget_def Let_def
      answer_def select_from_def matches_def column_def opt_str_def opt_bool_def
      mixed_store_def demo_store_def draft_row_def approved_row_def unpublished_row_def
      priced_def)

lemma mixed_store_experiences:
  "snd (loadExperiences mixed_store (Some demo_dom) [] [] [] [])
     = Some \<lparr>resultsMeta = ''1 experiences found'', experiencesGrid = Grid_cards [approved_row]\<rparr>"
  by (simp add: loadExperiences_def experiences_main_def experiences_query_def
      experiences_budget_def Let_def answer_def select_from_def matches_def column_def
      opt_str_def opt_bool_def renderExperiences_def show_nat.simps
      mixed_store_def demo_store_def draft_row_def approved_row_def unpublished_row_def
      priced_def)

definition mixed_detail_page :: "string \<Rightarrow> detail_page" where
  "mixed_detail_page eid =
     detail_run (\<lambda>s. s) [DOMContentLoaded 2000000 ''s1'']
       (open_detail_page mixed_store (\<lambda>_. None) None (Some eid) None demo_nav
          demo_save_button)"

lemma mixed_store_detail:
  "rendered (mixed_detail_page ''e1'') = Some approved_row
   \<and> rendered (mixed_detail_page ''e2'') = None
   \<and> rendered (mixed_detail_page ''e3'') = None"
  by (simp add: mixed_detail_page_def on_ready_def setNavState_def open_detail_page_def
      or_str_def truthy_str_def Let_def rendered_logViewOnce
      loadAndRenderExperience_def detail_query_def single_reply_def hideError_def
      showError_def issue_def updateSaveButtonUI_def rendered_renderDetail
      answer_def select_from_def matches_def column_def opt_str_def opt_bool_def
      mixed_store_def demo_store_def draft_row_def approved_row_def unpublished_row_def
      priced_def)

text \<open>
  C2. Every row the finder's match query returns, every row the experiences page shows
  as a card, and the record the detail page renders (in any state the page reaches) has
  a status equal to "approved" ignoring letter case and a publish flag that is true.
\<close>

theorem only_approved_published_surfaced:
  "(snd (fetchMatches st categoryId county_sel budget) = Inr rows
      \<longrightarrow> (\<forall>r \<in> set rows. surfaced_ok r))
   \<and> (snd (loadExperiences st els searchText categoryId county_sel budget) = Some d'
        \<and> experiencesGrid d' = Grid_cards rows'
      \<longrightarrow> (\<forall>r \<in> set rows'. surfaced_ok r))
   \<and> (rendered (detail_run enc es (open_detail_page st stored vsid uid usrc n sb)) = Some xp
      \<longrightarrow> surfaced_ok xp)"
proof (intro conjI impI ballI)
  fix r
  assume "snd (fetchMatches st categoryId county_sel budget) = Inr rows" and "r \<in> set rows"
  then show "surfaced_ok r" by (rule fetchMatches_surfaced)
next
  fix r
  assume "snd (loadExperiences st els searchText categoryId county_sel budget) = Some d'
          \<and> experiencesGrid d' = Grid_cards rows'"
    and "r \<in> set rows'"
  then show "surfaced_ok r" using loadExperiences_surfaced by blast
next
  assume a: "rendered (detail_run enc es (open_detail_page st stored vsid uid usrc n sb)) = Some xp"
  have "rendered_ok (detail_run enc es (open_detail_page st stored vsid uid usrc n sb))"
    by (rule rendered_ok_run [OF rendered_ok_open])
  with a show "surfaced_ok xp" by (simp add: rendered_ok_def)
qed

theorem only_approved_published_surfaced_witness:
  "snd (fetchMatches mixed_store [] [] []) = Inr [approved_row]
   \<and> experiencesGrid (the (snd (loadExperiences mixed_store (Some demo_dom) [] [] [] [])))
       = Grid_cards [approved_row]
   \<and> rendered (mixed_detail_page ''e1'') = Some approved_row
   \<and> surfaced_ok approved_row
   \<and> \<not> surfaced_ok draft_row \<and> \<not> surfaced_ok unpublished_row"
  using only_approved_published_surfaced [of mixed_store "[]" "[]" "[]" "[approved_row]"
      "Some demo_dom" "[]"
      "\<lparr>resultsMeta = ''1 experiences found'', experiencesGrid = Grid_cards [approved_row]\<rparr>"
      "[approved_row]" "\<lambda>s. s" "[DOMContentLoaded 2000000 ''s1'']" "\<lambda>_. None" None
      "Some ''e1''" None demo_nav demo_save_button approved_row]
  by (simp add: mixed_store_finder mixed_store_experiences mixed_store_detail
      mixed_detail_page_def [symmetric] surfaced_ok_def approved_ci_def draft_row_def
      unpublished_row_def priced_def lower_char_def)

section \<open>Metrics de-duplication\<close>

text \<open>
  A recorder call is a view (\<open>logViewOnce\<close>, at the end of a page load) or a booking click
  (\<open>logBookingClickOnce\<close> with 30 minutes, from the click handler), for an experience id,
  at a time, with the UUID the browser would draw. Calls of later page loads see the
  same local storage and the same store.
\<close>

datatype event_kind = View | BookingClick

































section \<open>The user dashboard: favourites\<close>

text \<open>
  dashboards/user.js keeps \<open>currentUser\<close> and the set \<open>favoriteExperienceIds\<close>. The
  favourites container shows the fixed empty notice, the cards of a list of experiences,
  or the fixed error notice. Toasts are kept as (message, type).
\<close>

datatype favorites_view =
    Favorites_untouched | Favorites_empty | Favorites_cards "experience list" | Favorites_error































section \<open>The business metrics page: KPI counts\<close>

text \<open>
  dashboards/businessmetrics.js. A timestamp is kept as milliseconds since the epoch
  (the script passes it to the store as an ISO string), and \<open>sinceISO(days)\<close> is \<open>days\<close>
  whole days before \<open>Date.now()\<close>.
\<close>

definition metric_column :: "metric_row \<Rightarrow> string \<Rightarrow> val" where
  "metric_column m c =
     (if c = ''business_id'' then VStr (m_business_id m)
      else if c = ''experience_id'' then VStr (m_experience_id m)
      else if c = ''event_type'' then opt_str (m_event_type m)
      else if c = ''created_at'' then VNum (m_created_at m)
      else VNull)"

definition sinceISO :: "int \<Rightarrow> nat \<Rightarrow> int" where
  "sinceISO now days = now - int days * 24 * 60 * 60 * 1000"

definition count_events_query :: "string \<Rightarrow> int \<Rightarrow> string \<Rightarrow> string \<Rightarrow> filter_op list" where
  "count_events_query businessId start eventType experienceId =
     [Eq ''business_id'' (VStr businessId), Eq ''event_type'' (VStr eventType),
      Gte ''created_at'' (real_of_int start)] @
     (if experienceId \<noteq> [] then [Eq ''experience_id'' (VStr experienceId)] else [])"

definition count_saves_query :: "string \<Rightarrow> int \<Rightarrow> string \<Rightarrow> filter_op list" where
  "count_saves_query businessId start experienceId =
     [Eq ''business_id'' (VStr businessId), Gte ''created_at'' (real_of_int start)] @
     (if experienceId \<noteq> [] then [Eq ''experience_id'' (VStr experienceId)] else [])"

text \<open>
  \<open>countEvents\<close> and \<open>countSaves\<close>: an exact count with \<open>head: true\<close>. An error result is
  logged and gives 0; a rejected promise leaves the function by the exception.
\<close>

definition countEvents ::
  "store \<Rightarrow> string \<Rightarrow> int \<Rightarrow> string \<Rightarrow> string \<Rightarrow> request \<times> (string + nat)" where
  "countEvents st businessId start eventType experienceId =
     (let q = count_events_query businessId start eventType experienceId;
          rq = Select ''event_metric_v'' q [CountHead]
      in (rq,
          case answer st rq (length (select_from (or_filter st) metric_column
                                       (event_metric_v st) q)) of
            Error e \<Rightarrow> Inr 0
          | Rejected e \<Rightarrow> Inl e
          | Data n \<Rightarrow> Inr n))"

definition countSaves ::
  "store \<Rightarrow> string \<Rightarrow> int \<Rightarrow> string \<Rightarrow> request \<times> (string + nat)" where
  "countSaves st businessId start experienceId =
     (let q = count_saves_query businessId start experienceId;
          rq = Select ''favorite_v'' q [CountHead]
      in (rq,
          case answer st rq (length (select_from (or_filter st) metric_column
                                       (favorite_v st) q)) of
            Error e \<Rightarrow> Inr 0
          | Rejected e \<Rightarrow> Inl e
          | Data n \<Rightarrow> Inr n))"

subsection \<open>Daily activity\<close>

definition daily_event_column :: "daily_event_row \<Rightarrow> string \<Rightarrow> val" where
  "daily_event_column r c =
     (if c = ''business_id'' then VStr (de_business_id r)
      else if c = ''experience_id'' then VStr (de_experience_id r)
      else if c = ''day'' then VNum (real_of_int (de_day r))
      else if c = ''event_type'' then opt_str (de_event_type r)
      else VNull)"

definition daily_save_column :: "daily_save_row \<Rightarrow> string \<Rightarrow> val" where
  "daily_save_column r c =
     (if c = ''business_id'' then VStr (ds_business_id r)
      else if c = ''experience_id'' then VStr (ds_experience_id r)
      else if c = ''day'' then VNum (real_of_int (ds_day r))
      else VNull)"

definition day_of :: "int \<Rightarrow> int" where
  "day_of ms = ms div (24 * 60 * 60 * 1000)"

definition loadEventsDaily ::
  "store \<Rightarrow> string \<Rightarrow> int \<Rightarrow> string \<Rightarrow> request \<times> (string + daily_event_row list)" where
  "loadEventsDaily st businessId startDay experienceId =
     (let q = [Eq ''business_id'' (VStr businessId), Gte ''day'' (real_of_int startDay),
               In ''event_type'' [VStr ''view'', VStr ''booking_click'']] @
              (if experienceId \<noteq> [] then [Eq ''experience_id'' (VStr experienceId)] else []);
          rq = Select ''metrics_events_daily_v'' q []
      in (rq,
          case answer st rq (select_from (or_filter st) daily_event_column
                               (metrics_events_daily_v st) q) of
            Error e \<Rightarrow> Inr []
          | Rejected e \<Rightarrow> Inl e
          | Data rows \<Rightarrow> Inr rows))"

definition loadSavesDaily ::
  "store \<Rightarrow> string \<Rightarrow> int \<Rightarrow> string \<Rightarrow> request \<times> (string + daily_save_row list)" where
  "loadSavesDaily st businessId startDay experienceId =
     (let q = [Eq ''business_id'' (VStr businessId), Gte ''day'' (real_of_int startDay)] @
              (if experienceId \<noteq> [] then [Eq ''experience_id'' (VStr experienceId)] else []);
          rq = Select ''metrics_saves_daily_v'' q []
      in (rq,
          case answer st rq (select_from (or_filter st) daily_save_column
                               (metrics_saves_daily_v st) q) of
            Error e \<Rightarrow> Inr []
          | Rejected e \<Rightarrow> Inl e
          | Data rows \<Rightarrow> Inr rows))"

record series =
  days :: "int list"
  views :: "nat list"
  saves :: "nat list"
  bookingClicks :: "nat list"

definition nat_or_0 :: "nat option \<Rightarrow> nat" where
  "nat_or_0 n = (case n of None \<Rightarrow> 0 | Some k \<Rightarrow> k)"

text \<open>The three \<open>Map\<close>s from day to total; a missing day reads as 0 (\<open>get(day) || 0\<close>).\<close>

definition add_total :: "string \<Rightarrow> (int \<Rightarrow> nat) \<Rightarrow> daily_event_row \<Rightarrow> (int \<Rightarrow> nat)" where
  "add_total ty m r =
     (if de_event_type r = Some ty then m(de_day r := m (de_day r) + nat_or_0 (de_total r))
      else m)"

definition add_saves :: "(int \<Rightarrow> nat) \<Rightarrow> daily_save_row \<Rightarrow> (int \<Rightarrow> nat)" where
  "add_saves m r = m(ds_day r := m (ds_day r) + nat_or_0 (ds_saves r))"

definition build_series :: "int list \<Rightarrow> daily_event_row list \<Rightarrow> daily_save_row list \<Rightarrow> series" where
  "build_series ds eventsDaily savesDaily =
     (let viewsMap = foldl (add_total ''view'') (\<lambda>_. 0) eventsDaily;
          clicksMap = foldl (add_total ''booking_click'') (\<lambda>_. 0) eventsDaily;
          savesMap = foldl add_saves (\<lambda>_. 0) savesDaily
      in \<lparr>days = ds, views = map viewsMap ds, saves = map savesMap ds,
          bookingClicks = map clicksMap ds\<rparr>)"

subsection \<open>The page state and \<open>refreshKpis\<close>\<close>

text \<open>
  \<open>currentBusiness\<close> is kept as its \<open>business_id\<close>. \<open>toLocaleString\<close> belongs to the
  runtime and is a parameter. The funnel shows three percentages, kept here as exact
  fractions clamped to 0..100; the charts are drawn by an external library from
  \<open>lastDailySeries\<close>. The clock is read once per run of the handler.
\<close>

record metrics_page =
  mp_db :: store
  mp_requests :: "request list"
  currentBusiness :: "string option"
  currentDays :: nat
  mp_currentExperienceId :: string
  kpiViews :: string
  kpiSaves :: string
  kpiClicks :: string
  lastKpis :: "nat \<times> nat \<times> nat"
  funnel :: "(real \<times> real \<times> real) option"
  snapshotLabel :: string
  lastDailySeries :: "series option"

definition clampPercent :: "real \<Rightarrow> real" where
  "clampPercent x = (if x < 0 then 0 else if 100 < x then 100 else x)"

definition renderFunnel :: "nat \<times> nat \<times> nat \<Rightarrow> metrics_page \<Rightarrow> metrics_page" where
  "renderFunnel kpis w =
     (case kpis of (v, s, c) \<Rightarrow>
        (let viewsToSaves = (if 0 < v then (real s / real v) * 100 else 0);
             savesToClicks = (if 0 < s then (real c / real s) * 100 else 0);
             viewsToClicks = (if 0 < v then (real c / real v) * 100 else 0)
         in w\<lparr>funnel := Some (clampPercent viewsToSaves, clampPercent savesToClicks,
                                clampPercent viewsToClicks)\<rparr>))"

definition setSelectedExperience :: "string \<Rightarrow> metrics_page \<Rightarrow> metrics_page" where
  "setSelectedExperience expId w =
     w\<lparr>mp_currentExperienceId := expId,
       snapshotLabel :=
         (if expId \<noteq> [] then ''Selected: 1 experience'' else ''Selected: All experiences'')
         @ '' '' @ bullet @ '' Last '' @ show_nat (currentDays w) @ '' days''\<rparr>"

definition refreshDailyActivity :: "int \<Rightarrow> metrics_page \<Rightarrow> outcome \<times> metrics_page" where
  "refreshDailyActivity now w =
     (case currentBusiness w of
        None \<Rightarrow> (Returned, w)
      | Some businessId \<Rightarrow>
          (let startDay = day_of (sinceISO now (currentDays w));
               endDay = day_of now;
               ds = [startDay..endDay];
               (rq1, eventsDaily) = loadEventsDaily (mp_db w) businessId startDay
                                      (mp_currentExperienceId w);
               (rq2, savesDaily) = loadSavesDaily (mp_db w) businessId startDay
                                     (mp_currentExperienceId w);
               w1 = w\<lparr>mp_requests := mp_requests w @ [rq1, rq2]\<rparr>
           in case (eventsDaily, savesDaily) of
                (Inl e, _) \<Rightarrow> (Threw e, w1)
              | (Inr _, Inl e) \<Rightarrow> (Threw e, w1)
              | (Inr es, Inr ss) \<Rightarrow>
                  (Returned, w1\<lparr>lastDailySeries := Some (build_series ds es ss)\<rparr>)))"

definition refreshKpis ::
  "(nat \<Rightarrow> string) \<Rightarrow> int \<Rightarrow> metrics_page \<Rightarrow> outcome \<times> metrics_page" where
  "refreshKpis toLocaleString now w =
     (case currentBusiness w of
        None \<Rightarrow> (Returned, w)
      | Some businessId \<Rightarrow>
          (let w0 = w\<lparr>kpiViews := em_dash, kpiSaves := em_dash, kpiClicks := em_dash\<rparr>;
               start = sinceISO now (currentDays w);
               (rq1, views_r) = countEvents (mp_db w) businessId start ''view''
                                  (mp_currentExperienceId w);
               (rq2, saves_r) = countSaves (mp_db w) businessId start (mp_currentExperienceId w);
               (rq3, clicks_r) = countEvents (mp_db w) businessId start ''booking_click''
                                   (mp_currentExperienceId w);
               w1 = w0\<lparr>mp_requests := mp_requests w @ [rq1, rq2, rq3]\<rparr>
           in case (views_r, saves_r, clicks_r) of
                (Inr v, Inr s, Inr c) \<Rightarrow>
                  (let w2 = w1\<lparr>kpiViews := toLocaleString v, kpiSaves := toLocaleString s,
                                 kpiClicks := toLocaleString c, lastKpis := (v, s, c)\<rparr>;
                       w3 = renderFunnel (v, s, c) w2;
                       w4 = setSelectedExperience (mp_currentExperienceId w3) w3
                   in refreshDailyActivity now w4)
              | (Inl e, _, _) \<Rightarrow> (Threw e, w1)
              | (_, Inl e, _) \<Rightarrow> (Threw e, w1)
              | (_, _, Inl e) \<Rightarrow> (Threw e, w1)))"

text \<open>A store that answers a failing request with an error result, never by rejecting.\<close>

definition never_rejects :: "store \<Rightarrow> bool" where
  "never_rejects st = (\<forall>rq e. fault st rq \<noteq> Some (Throws e))"

definition count_events_request :: "string \<Rightarrow> int \<Rightarrow> string \<Rightarrow> string \<Rightarrow> request" where
  "count_events_request businessId start eventType experienceId =
     Select ''event_metric_v'' (count_events_query businessId start eventType experienceId)
       [CountHead]"

definition count_saves_request :: "string \<Rightarrow> int \<Rightarrow> string \<Rightarrow> request" where
  "count_saves_request businessId start experienceId =
     Select ''favorite_v'' (count_saves_query businessId start experienceId) [CountHead]"

lemma countEvents_request: "fst (countEvents st b start ty x) = count_events_request b start ty x"
  by (simp add: countEvents_def count_events_request_def Let_def)

lemma countSaves_request: "fst (countSaves st b start x) = count_saves_request b start x"
  by (simp add: countSaves_def count_saves_request_def Let_def)

lemma countEvents_error:
  "fault st (count_events_request b start ty x) = Some (Fails e) \<Longrightarrow>
     snd (countEvents st b start ty x) = Inr 0"
  by (simp add: countEvents_def count_events_request_def Let_def answer_def)

lemma countSaves_error:
  "fault st (count_saves_request b start x) = Some (Fails e) \<Longrightarrow>
     snd (countSaves st b start x) = Inr 0"
  by (simp add: countSaves_def count_saves_request_def Let_def answer_def)

lemma countEvents_total:
  assumes "never_rejects st"
  shows "\<exists>n. snd (countEvents st b start ty x) = Inr n
           \<and> (fault st (count_events_request b start ty x) \<noteq> None \<longrightarrow> n = 0)"
proof (cases "fault st (count_events_request b start ty x)")
  case None
  then show ?thesis
    by (simp add: countEvents_def count_events_request_def Let_def answer_def)
next
  case (Some f)
  then obtain e where "f = Fails e"
    using assms by (cases f) (auto simp: never_rejects_def)
  with Some show ?thesis
    using countEvents_error [of st b start ty x e] by simp
qed

lemma countSaves_total:
  assumes "never_rejects st"
  shows "\<exists>n. snd (countSaves st b start x) = Inr n
           \<and> (fault st (count_saves_request b start x) \<noteq> None \<longrightarrow> n = 0)"
proof (cases "fault st (count_saves_request b start x)")
  case None
  then show ?thesis
    by (simp add: countSaves_def count_saves_request_def Let_def answer_def)
next
  case (Some f)
  then obtain e where "f = Fails e"
    using assms by (cases f) (auto simp: never_rejects_def)
  with Some show ?thesis
    using countSaves_error [of st b start x e] by simp
qed

lemma loadEventsDaily_total:
  assumes "never_rejects st"
  shows "\<exists>rows. snd (loadEventsDaily st b d x) = Inr rows"
proof (cases "fault st (fst (loadEventsDaily st b d x))")
  case None
  then show ?thesis
    by (simp add: loadEventsDaily_def Let_def answer_def)
next
  case (Some f)
  then obtain e where "f = Fails e"
    using assms by (cases f) (auto simp: never_rejects_def)
  with Some show ?thesis
    by (simp add: loadEventsDaily_def Let_def answer_def)
qed

lemma loadSavesDaily_total:
  assumes "never_rejects st"
  shows "\<exists>rows. snd (loadSavesDaily st b d x) = Inr rows"
proof (cases "fault st (fst (loadSavesDaily st b d x))")
  case None
  then show ?thesis
    by (simp add: loadSavesDaily_def Let_def answer_def)
next
  case (Some f)
  then obtain e where "f = Fails e"
    using assms by (cases f) (auto simp: never_rejects_def)
  with Some show ?thesis
    by (simp add: loadSavesDaily_def Let_def answer_def)
qed

lemma refreshDailyActivity_total:
  assumes "never_rejects (mp_db w)"
  shows "\<exists>w'. refreshDailyActivity now w = (Returned, w')
           \<and> kpiViews w' = kpiViews w \<and> kpiSaves w' = kpiSaves w \<and> kpiClicks w' = kpiClicks w
           \<and> lastKpis w' = lastKpis w"
proof (cases "currentBusiness w")
  case None
  then show ?thesis by (simp add: refreshDailyActivity_def)
next
  case (Some b)
  let ?d = "day_of (sinceISO now (currentDays w))"
  obtain rq1 r1 where e: "loadEventsDaily (mp_db w) b ?d (mp_currentExperienceId w) = (rq1, r1)"
    by (cases "loadEventsDaily (mp_db w) b ?d (mp_currentExperienceId w)")
  obtain rq2 r2 where s: "loadSavesDaily (mp_db w) b ?d (mp_currentExperienceId w) = (rq2, r2)"
    by (cases "loadSavesDaily (mp_db w) b ?d (mp_currentExperienceId w)")
  obtain es where es: "r1 = Inr es"
    using loadEventsDaily_total [OF assms, of b ?d "mp_currentExperienceId w"] e by auto
  obtain ss where ss: "r2 = Inr ss"
    using loadSavesDaily_total [OF assms, of b ?d "mp_currentExperienceId w"] s by auto
  show ?thesis
    by (simp add: refreshDailyActivity_def Some Let_def e s es ss)
qed

lemma refreshKpis_total:
  assumes nr: "never_rejects (mp_db w)" and cb: "currentBusiness w = Some b"
  shows "\<exists>w' v s c. refreshKpis loc now w = (Returned, w')
           \<and> kpiViews w' = loc v \<and> kpiSaves w' = loc s \<and> kpiClicks w' = loc c
           \<and> lastKpis w' = (v, s, c)
           \<and> (fault (mp_db w) (count_events_request b (sinceISO now (currentDays w)) ''view''
                                  (mp_currentExperienceId w)) \<noteq> None \<longrightarrow> v = 0)
           \<and> (fault (mp_db w) (count_saves_request b (sinceISO now (currentDays w))
                                  (mp_currentExperienceId w)) \<noteq> None \<longrightarrow> s = 0)
           \<and> (fault (mp_db w) (count_events_request b (sinceISO now (currentDays w))
                                  ''booking_click'' (mp_currentExperienceId w)) \<noteq> None \<longrightarrow> c = 0)"
proof -
  let ?start = "sinceISO now (currentDays w)"
  let ?x = "mp_currentExperienceId w"
  obtain v where v: "snd (countEvents (mp_db w) b ?start ''view'' ?x) = Inr v"
      and v0: "fault (mp_db w) (count_events_request b ?start ''view'' ?x) \<noteq> None \<longrightarrow> v = 0"
    using countEvents_total [OF nr, of b ?start "''view''" ?x] by blast
  obtain s where s: "snd (countSaves (mp_db w) b ?start ?x) = Inr s"
      and s0: "fault (mp_db w) (count_saves_request b ?start ?x) \<noteq> None \<longrightarrow> s = 0"
    using countSaves_total [OF nr, of b ?start ?x] by blast
  obtain c where c: "snd (countEvents (mp_db w) b ?start ''booking_click'' ?x) = Inr c"
      and c0: "fault (mp_db w) (count_events_request b ?start ''booking_click'' ?x) \<noteq> None
                 \<longrightarrow> c = 0"
    using countEvents_total [OF nr, of b ?start "''booking_click''" ?x] by blast
  have pv: "countEvents (mp_db w) b ?start ''view'' ?x
              = (count_events_request b ?start ''view'' ?x, Inr v)"
    using v countEvents_request [of "mp_db w" b ?start "''view''" ?x] by (simp add: prod_eq_iff)
  have ps: "countSaves (mp_db w) b ?start ?x = (count_saves_request b ?start ?x, Inr s)"
    using s countSaves_request [of "mp_db w" b ?start ?x] by (simp add: prod_eq_iff)
  have pc: "countEvents (mp_db w) b ?start ''booking_click'' ?x
              = (count_events_request b ?start ''booking_click'' ?x, Inr c)"
    using c countEvents_request [of "mp_db w" b ?start "''booking_click''" ?x]
    by (simp add: prod_eq_iff)
  define w2 where "w2 =
     w\<lparr>kpiViews := em_dash, kpiSaves := em_dash, kpiClicks := em_dash,
       mp_requests := mp_requests w @ [count_events_request b ?start ''view'' ?x,
                                       count_saves_request b ?start ?x,
                                       count_events_request b ?start ''booking_click'' ?x],
       kpiViews := loc v, kpiSaves := loc s, kpiClicks := loc c, lastKpis := (v, s, c)\<rparr>"
  define w4 where "w4 = setSelectedExperience ?x (renderFunnel (v, s, c) w2)"
  have x3: "mp_currentExperienceId (renderFunnel k u) = mp_currentExperienceId u" for k u
    by (cases k) (simp add: renderFunnel_def Let_def)
  have w4: "mp_db w4 = mp_db w" "kpiViews w4 = loc v" "kpiSaves w4 = loc s"
      "kpiClicks w4 = loc c" "lastKpis w4 = (v, s, c)"
    by (simp_all add: w4_def w2_def setSelectedExperience_def renderFunnel_def Let_def)
  have run: "refreshKpis loc now w = refreshDailyActivity now w4"
    by (simp add: refreshKpis_def cb Let_def pv ps pc w4_def w2_def x3)
  obtain w' where "refreshDailyActivity now w4 = (Returned, w')"
      "kpiViews w' = kpiViews w4" "kpiSaves w' = kpiSaves w4" "kpiClicks w' = kpiClicks w4"
      "lastKpis w' = lastKpis w4"
    using refreshDailyActivity_total [of w4 now] nr w4(1) by auto
  then show ?thesis
    using run w4 v0 s0 c0 by auto
qed

text \<open>
  C10. When the store answers a count query with an error result, \<open>countEvents\<close> and
  \<open>countSaves\<close> return 0. So, with a business loaded and a store that answers failures
  with error results (it does not reject), \<open>refreshKpis\<close> returns normally and the three
  KPI fields show formatted numbers, which are 0 for every count query that failed.
\<close>

theorem count_errors_give_zero_totals:
  "(fault st (count_events_request b start ty x) = Some (Fails e) \<longrightarrow>
      countEvents st b start ty x = (count_events_request b start ty x, Inr 0))
   \<and> (fault st (count_saves_request b start x) = Some (Fails e) \<longrightarrow>
      countSaves st b start x = (count_saves_request b start x, Inr 0))
   \<and> (never_rejects (mp_db w) \<and> currentBusiness w = Some b \<longrightarrow>
        (\<exists>w' v s c. refreshKpis loc now w = (Returned, w')
           \<and> kpiViews w' = loc v \<and> kpiSaves w' = loc s \<and> kpiClicks w' = loc c
           \<and> lastKpis w' = (v, s, c)
           \<and> (fault (mp_db w) (count_events_request b (sinceISO now (currentDays w)) ''view''
                                  (mp_currentExperienceId w)) \<noteq> None \<longrightarrow> v = 0)
           \<and> (fault (mp_db w) (count_saves_request b (sinceISO now (currentDays w))
                                  (mp_currentExperienceId w)) \<noteq> None \<longrightarrow> s = 0)
           \<and> (fault (mp_db w) (count_events_request b (sinceISO now (currentDays w))
                                  ''booking_click'' (mp_currentExperienceId w)) \<noteq> None
                \<longrightarrow> c = 0)))"
proof (intro conjI impI)
  assume "fault st (count_events_request b start ty x) = Some (Fails e)"
  then show "countEvents st b start ty x = (count_events_request b start ty x, Inr 0)"
    using countEvents_error [of st b start ty x e] countEvents_request [of st b start ty x]
    by (simp add: prod_eq_iff)
next
  assume "fault st (count_saves_request b start x) = Some (Fails e)"
  then show "countSaves st b start x = (count_saves_request b start x, Inr 0)"
    using countSaves_error [of st b start x e] countSaves_request [of st b start x]
    by (simp add: prod_eq_iff)
next
  assume "never_rejects (mp_db w) \<and> currentBusiness w = Some b"
  then show "\<exists>w' v s c. refreshKpis loc now w = (Returned, w')
           \<and> kpiViews w' = loc v \<and> kpiSaves w' = loc s \<and> kpiClicks w' = loc c
           \<and> lastKpis w' = (v, s, c)
           \<and> (fault (mp_db w) (count_events_request b (sinceISO now (currentDays w)) ''view''
                                  (mp_currentExperienceId w)) \<noteq> None \<longrightarrow> v = 0)
           \<and> (fault (mp_db w) (count_saves_request b (sinceISO now (currentDays w))
                                  (mp_currentExperienceId w)) \<noteq> None \<longrightarrow> s = 0)
           \<and> (fault (mp_db w) (count_events_request b (sinceISO now (currentDays w))
                                  ''booking_click'' (mp_currentExperienceId w)) \<noteq> None
                \<longrightarrow> c = 0)"
    using refreshKpis_total [of w b loc now] by simp
qed

text \<open>A metrics page over a store in which every request fails with an error result.\<close>

definition all_failing_store :: store where
  "all_failing_store = demo_store\<lparr>fault := (\<lambda>_. Some (Fails ''boom''))\<rparr>"

definition demo_metrics_page :: metrics_page where
  "demo_metrics_page =
     \<lparr>mp_db = all_failing_store, mp_requests = [], currentBusiness = Some ''b1'',
      currentDays = 30, mp_currentExperienceId = [], kpiViews = [], kpiSaves = [],
      kpiClicks = [], lastKpis = (0, 0, 0), funnel = None, snapshotLabel = [],
      lastDailySeries = None\<rparr>"

lemma demo_metrics_page_facts:
  "never_rejects (mp_db demo_metrics_page)"
  "currentBusiness demo_metrics_page = Some ''b1''"
  "fault (mp_db demo_metrics_page) rq = Some (Fails ''boom'')"
  by (simp_all add: demo_metrics_page_def all_failing_store_def never_rejects_def)

theorem count_errors_give_zero_totals_witness:
  "never_rejects (mp_db demo_metrics_page) \<and> currentBusiness demo_metrics_page = Some ''b1''
   \<and> countEvents all_failing_store ''b1'' 0 ''view'' []
       = (count_events_request ''b1'' 0 ''view'' [], Inr 0)
   \<and> countSaves all_failing_store ''b1'' 0 [] = (count_saves_request ''b1'' 0 [], Inr 0)
   \<and> fst (refreshKpis show_nat 0 demo_metrics_page) = Returned
   \<and> kpiViews (snd (refreshKpis show_nat 0 demo_metrics_page)) = ''0''
   \<and> kpiSaves (snd (refreshKpis show_nat 0 demo_metrics_page)) = ''0''
   \<and> kpiClicks (snd (refreshKpis show_nat 0 demo_metrics_page)) = ''0''"
proof -
  have z: "show_nat 0 = ''0''"
    by (simp add: show_nat.simps)
  have f: "fault all_failing_store rq = Some (Fails ''boom'')" for rq
    by (simp add: all_failing_store_def)
  show ?thesis
    using count_errors_give_zero_totals [of all_failing_store "''b1''" 0 "''view''" "[]"
        "''boom''" demo_metrics_page show_nat 0]
    by (auto simp: demo_metrics_page_facts f z)
qed

end
